theory Spec2Isabelle
  imports Complex_Main
begin

section \<open>JavaScript values\<close>

text \<open>
  Strings are lists of code units; the model covers the code units 0 to 255, which is
  enough for every literal, pattern and identifier the client handles.  A number is a
  finite rational (every finite double is one), an infinity or NaN; the two zeros are not
  told apart.  An object is the list of its own enumerable properties in enumeration
  order; where a key occurs twice, the first occurrence is the property.
\<close>

datatype number = NaN | Finite rat | PosInfinity | NegInfinity

datatype jsval =
    JUndefined
  | JNull
  | JBool bool
  | JNum number
  | JStr string
  | JArr "jsval list"
  | JObj "(string \<times> jsval) list"

text \<open>Truthiness of a string, as tested by \<^verbatim>\<open>if (!messageId)\<close> or \<^verbatim>\<open>options?.delay ? ... : ...\<close>
  on an optional string: absent (undefined or null) and the empty string are falsy.\<close>

fun truthy_str :: "string option \<Rightarrow> bool" where
  "truthy_str None = False"
| "truthy_str (Some s) = (s \<noteq> [])"

text \<open>Truthiness of an arbitrary value (\<^verbatim>\<open>options?.body ? ... : undefined\<close>).\<close>

fun truthy :: "jsval \<Rightarrow> bool" where
  "truthy JUndefined = False"
| "truthy JNull = False"
| "truthy (JBool b) = b"
| "truthy (JNum NaN) = False"
| "truthy (JNum (Finite q)) = (q \<noteq> 0)"
| "truthy (JNum PosInfinity) = True"
| "truthy (JNum NegInfinity) = True"
| "truthy (JStr s) = (s \<noteq> [])"
| "truthy (JArr _) = True"
| "truthy (JObj _) = True"

text \<open>Assignment \<^verbatim>\<open>obj[key] = value\<close> with a key that is not an array index: an existing
  property keeps its place and takes the new value, a new property goes last.\<close>

fun obj_set :: "(string \<times> 'v) list \<Rightarrow> string \<Rightarrow> 'v \<Rightarrow> (string \<times> 'v) list" where
  "obj_set [] k v = [(k, v)]"
| "obj_set ((k', v') # ps) k v = (if k' = k then (k, v) # ps else (k', v') # obj_set ps k v)"

text \<open>Property read \<^verbatim>\<open>value.key\<close>: a TypeError on undefined and null, the property of an
  object, undefined where the object has no such property (and on primitives and arrays,
  for the property names used here).\<close>

datatype native_error =
    Error string
  | TypeError string
  | SyntaxError string
  | DOMException string string
  | OtherError string string

fun get_member :: "jsval \<Rightarrow> string \<Rightarrow> native_error + jsval" where
  "get_member JUndefined k = Inl (TypeError (''Cannot read properties of undefined (reading '' @ k @ '')''))"
| "get_member JNull k = Inl (TypeError (''Cannot read properties of null (reading '' @ k @ '')''))"
| "get_member (JObj ps) k = (case map_of ps k of Some v \<Rightarrow> Inr v | None \<Rightarrow> Inr JUndefined)"
| "get_member _ k = Inr JUndefined"

text \<open>\<^verbatim>\<open>data[key]\<close> on an object: the value of the property, undefined when there is none.\<close>

definition property :: "(string \<times> jsval) list \<Rightarrow> string \<Rightarrow> jsval" where
  "property ps k = (case map_of ps k of Some v \<Rightarrow> v | None \<Rightarrow> JUndefined)"

text \<open>The keys that \<^verbatim>\<open>for (const key in data)\<close> visits, each once, and the entries
  \<^verbatim>\<open>[key, data[key]]\<close> for them.\<close>

definition ownKeys :: "(string \<times> jsval) list \<Rightarrow> string list" where
  "ownKeys ps = remdups (map fst ps)"

definition entries :: "(string \<times> jsval) list \<Rightarrow> (string \<times> jsval) list" where
  "entries ps = map (\<lambda>key. (key, property ps key)) (ownKeys ps)"

text \<open>Deep equality of two values: objects
  are equal when they have the same property names with equal values, in whatever order;
  arrays are equal when they have the same length and equal elements.\<close>

function (sequential) jsEqual :: "jsval \<Rightarrow> jsval \<Rightarrow> bool" where
  "jsEqual (JObj ps) (JObj qs) =
     (fst ` set ps = fst ` set qs \<and> (\<forall>k \<in> fst ` set ps. jsEqual (property ps k) (property qs k)))"
| "jsEqual (JArr xs) (JArr ys) =
     (length xs = length ys \<and> (\<forall>i \<in> {..<length xs}. jsEqual (xs ! i) (ys ! i)))"
| "jsEqual a b = (a = b)"
  by pat_completeness auto
termination
proof (relation "measure (\<lambda>(a, b). size a)")
  show "wf (measure (\<lambda>(a, b). size a))" by simp
next
  fix ps qs :: "(string \<times> jsval) list" and k
  assume "k \<in> fst ` set ps"
  then have "size (property ps k) \<le> size_list (size_prod (\<lambda>x. 0) size) ps"
  proof (induction ps)
    case Nil
    then show ?case by simp
  next
    case (Cons p ps)
    obtain a b where p: "p = (a, b)" by (cases p)
    show ?case
    proof (cases "a = k")
      case True
      then show ?thesis using p by (simp add: property_def)
    next
      case False
      with Cons.prems p have "k \<in> fst ` set ps" by auto
      then show ?thesis using Cons.IH False p by (simp add: property_def)
    qed
  qed
  then show "((property ps k, property qs k), JObj ps, JObj qs) \<in> measure (\<lambda>(a, b). size a)"
    by simp
next
  fix xs ys :: "jsval list" and i
  assume "i \<in> {..<length xs}"
  then have "size (xs ! i) \<le> size_list size xs"
    by (metis lessThan_iff nth_mem size_list_estimation' order_refl)
  then show "((xs ! i, ys ! i), JArr xs, JArr ys) \<in> measure (\<lambda>(a, b). size a)"
    by simp
qed

section \<open>Built-in string functions\<close>

text \<open>\<open>inRange lo hi c\<close>: the code unit \<open>c\<close> lies between those of \<open>lo\<close> and \<open>hi\<close>,
  as in a character range \<^verbatim>\<open>[lo-hi]\<close>.\<close>

definition inRange :: "char \<Rightarrow> char \<Rightarrow> char \<Rightarrow> bool" where
  "inRange lo hi c = ((of_char lo :: nat) \<le> of_char c \<and> (of_char c :: nat) \<le> of_char hi)"

definition isDigit :: "char \<Rightarrow> bool" where
  "isDigit c = inRange CHR ''0'' CHR ''9'' c"

definition digitVal :: "char \<Rightarrow> int" where
  "digitVal c = int (of_char c) - 48"

text \<open>The white space \<^verbatim>\<open>parseInt\<close> skips: TAB, LF, VT, FF, CR, SP and NBSP.\<close>

definition isStrWhiteSpaceChar :: "char \<Rightarrow> bool" where
  "isStrWhiteSpaceChar c = ((of_char c :: nat) \<in> {9, 10, 11, 12, 13, 32, 160})"

definition digitsValue :: "string \<Rightarrow> int" where
  "digitsValue ds = foldl (\<lambda>a c. 10 * a + digitVal c) 0 ds"

text \<open>The number of bits of a positive integer.\<close>

function bitLength :: "int \<Rightarrow> nat" where
  "bitLength n = (if n \<le> 0 then 0 else Suc (bitLength (n div 2)))"
  by pat_completeness auto
termination
  by (relation "measure nat") auto

declare bitLength.simps [simp del]

text \<open>The Number value for an integer: the double nearest to it, the one with the even
  significand of 53 bits where two are equally near, and an infinity where that rounding
  reaches \<open>2^1024\<close>.  An integer below \<open>2^53\<close> in magnitude is its own Number value.\<close>

definition numberValue :: "int \<Rightarrow> number" where
  "numberValue i =
     (let n = \<bar>i\<bar>;
          e = bitLength n - 53;
          q = n div 2 ^ e;
          r = n mod 2 ^ e;
          q' = (if 2 ^ e < 2 * r \<or> (2 * r = 2 ^ e \<and> odd q) then q + 1 else q);
          m = q' * 2 ^ e
      in if 1024 < bitLength m then (if i < 0 then NegInfinity else PosInfinity)
         else Finite (of_int (if i < 0 then - m else m)))"

text \<open>\<^verbatim>\<open>parseInt(s, 10)\<close>: skip leading white space, read a sign, read the longest run of
  decimal digits; NaN when there is none, and otherwise the Number value for the signed
  integer that the digits write.\<close>

definition parseInt10 :: "string \<Rightarrow> number" where
  "parseInt10 s =
     (let S = dropWhile isStrWhiteSpaceChar s;
          sign = (case S of c # _ \<Rightarrow> if c = CHR ''-'' then - 1 else 1 | [] \<Rightarrow> (1::int));
          S' = (case S of c # r \<Rightarrow> if c = CHR ''+'' \<or> c = CHR ''-'' then r else S | [] \<Rightarrow> S);
          Z = takeWhile isDigit S'
      in if Z = [] then NaN else numberValue (sign * digitsValue Z))"

text \<open>\<^verbatim>\<open>toUpperCase\<close> on the letters a to z; every other code unit of an HTTP method name
  (a token of ASCII characters) is left as it is.\<close>

definition upperChar :: "char \<Rightarrow> char" where
  "upperChar c = (if inRange CHR ''a'' CHR ''z'' c then char_of (of_char c - (32::nat)) else c)"

definition toUpperCase :: "string \<Rightarrow> string" where
  "toUpperCase s = map upperChar s"

definition lowerChar :: "char \<Rightarrow> char" where
  "lowerChar c = (if inRange CHR ''A'' CHR ''Z'' c then char_of (of_char c + (32::nat)) else c)"

definition hexDigit :: "nat \<Rightarrow> char" where
  "hexDigit n = ''0123456789ABCDEF'' ! (n mod 16)"

definition percentByte :: "nat \<Rightarrow> string" where
  "percentByte b = [CHR ''%'', hexDigit (b div 16), hexDigit b]"

text \<open>The characters \<^verbatim>\<open>encodeURIComponent\<close> leaves alone: letters, digits and
  \<^verbatim>\<open>- _ . ! ~ * ' ( )\<close>.\<close>

definition uriUnescaped :: "char \<Rightarrow> bool" where
  "uriUnescaped c =
     (inRange CHR ''A'' CHR ''Z'' c \<or> inRange CHR ''a'' CHR ''z'' c \<or> isDigit c
      \<or> c \<in> set ''-_.!~*()'' \<or> c = CHR 0x27)"

text \<open>Every other code unit is replaced by the percent-escaped bytes of its UTF-8
  encoding: one byte below 128, two bytes from 128 to 255.\<close>

definition encodeChar :: "char \<Rightarrow> string" where
  "encodeChar c =
     (let n = (of_char c :: nat)
      in if uriUnescaped c then [c]
         else if n < 128 then percentByte n
         else percentByte (192 + n div 64) @ percentByte (128 + n mod 64))"

definition encodeURIComponent :: "string \<Rightarrow> string" where
  "encodeURIComponent s = concat (map encodeChar s)"

subsection \<open>The URL parser\<close>

text \<open>
  \<^verbatim>\<open>new URL(path, base)\<close> for a reference that begins with a single slash, against a base
  with the scheme http or https, as the URL Standard defines it.  Every operation of the
  client builds such a reference: a literal that begins with a slash and a letter, followed
  by an identifier.  The result keeps the scheme, host and port of the base and takes its
  path, query and fragment from the reference.  The parser drops leading and trailing C0
  controls and spaces and every tab and newline.  It then reads the path up to a question
  mark or number sign: a slash or backslash ends a segment, a segment that is a single dot
  is dropped, a segment that is a double dot removes the segment before it, and a code
  point of the path percent-encode set is escaped.  What follows a question mark is the
  query, what follows a number sign is the fragment.
\<close>

definition isC0ControlOrSpace :: "char \<Rightarrow> bool" where
  "isC0ControlOrSpace c = ((of_char c :: nat) \<le> 32)"

definition isTabOrNewline :: "char \<Rightarrow> bool" where
  "isTabOrNewline c = ((of_char c :: nat) \<in> {9, 10, 13})"

definition utf8PercentEncode :: "char \<Rightarrow> string" where
  "utf8PercentEncode c =
     (let n = (of_char c :: nat)
      in if n < 128 then percentByte n
         else percentByte (192 + n div 64) @ percentByte (128 + n mod 64))"

text \<open>The percent-encode sets: C0 control, fragment, query, special-query and path.\<close>

definition inC0ControlSet :: "char \<Rightarrow> bool" where
  "inC0ControlSet c = ((of_char c :: nat) \<le> 31 \<or> 126 < (of_char c :: nat))"

definition inFragmentSet :: "char \<Rightarrow> bool" where
  "inFragmentSet c = (inC0ControlSet c \<or> c \<in> {CHR '' '', CHR 0x22, CHR ''<'', CHR ''>'', CHR 0x60})"

definition inQuerySet :: "char \<Rightarrow> bool" where
  "inQuerySet c = (inC0ControlSet c \<or> c \<in> {CHR '' '', CHR 0x22, CHR ''#'', CHR ''<'', CHR ''>''})"

definition inSpecialQuerySet :: "char \<Rightarrow> bool" where
  "inSpecialQuerySet c = (inQuerySet c \<or> c = CHR 0x27)"

definition inPathSet :: "char \<Rightarrow> bool" where
  "inPathSet c = (inQuerySet c \<or> c \<in> {CHR ''?'', CHR 0x5E, CHR 0x60, CHR ''{'', CHR ''}''})"

definition percentEncode :: "(char \<Rightarrow> bool) \<Rightarrow> string \<Rightarrow> string" where
  "percentEncode inSet s = concat (map (\<lambda>c. if inSet c then utf8PercentEncode c else [c]) s)"

text \<open>The dot segments: \<^verbatim>\<open>.\<close> and \<^verbatim>\<open>..\<close>, also with \<^verbatim>\<open>%2e\<close> in either case for a dot.\<close>

definition isSingleDot :: "string \<Rightarrow> bool" where
  "isSingleDot buffer = (map lowerChar buffer \<in> {''.'', ''%2e''})"

definition isDoubleDot :: "string \<Rightarrow> bool" where
  "isDoubleDot buffer = (map lowerChar buffer \<in> {''..'', ''.%2e'', ''%2e.'', ''%2e%2e''})"

definition shorten :: "string list \<Rightarrow> string list" where
  "shorten path = butlast path"

text \<open>The end of a segment in the path state; \<open>slash\<close> says that a slash or backslash
  ended it, rather than the end of the path.\<close>

definition endSegment :: "string list \<Rightarrow> string \<Rightarrow> bool \<Rightarrow> string list" where
  "endSegment path buffer slash =
     (if isDoubleDot buffer then (if slash then shorten path else shorten path @ [[]])
      else if isSingleDot buffer then (if slash then path else path @ [[]])
      else path @ [buffer])"

text \<open>The path state: the segments so far, the buffer and the input left; the result is
  the path and what is left from the question mark or number sign on.\<close>

fun pathState :: "string list \<Rightarrow> string \<Rightarrow> string \<Rightarrow> string list \<times> string" where
  "pathState path buffer [] = (endSegment path buffer False, [])"
| "pathState path buffer (c # cs) =
     (if c = CHR ''/'' \<or> c = CHR 0x5C then pathState (endSegment path buffer True) [] cs
      else if c = CHR ''?'' \<or> c = CHR ''#'' then (endSegment path buffer False, c # cs)
      else pathState path (buffer @ (if inPathSet c then utf8PercentEncode c else [c])) cs)"

definition queryAndFragment :: "string \<Rightarrow> string option \<times> string option" where
  "queryAndFragment rest =
     (case rest of
        [] \<Rightarrow> (None, None)
      | c # cs \<Rightarrow>
          if c = CHR ''?'' then
            (Some (percentEncode inSpecialQuerySet (takeWhile (\<lambda>x. x \<noteq> CHR ''#'') cs)),
             (case dropWhile (\<lambda>x. x \<noteq> CHR ''#'') cs of
                [] \<Rightarrow> None
              | _ # f \<Rightarrow> Some (percentEncode inFragmentSet f)))
          else (None, Some (percentEncode inFragmentSet cs)))"

definition serializePath :: "string list \<Rightarrow> string" where
  "serializePath path = concat (map (\<lambda>segment. CHR ''/'' # segment) path)"

text \<open>The path, query and fragment of the parsed URL.  A reference of another shape, which
  the client never builds, is kept as it is written.\<close>

definition parseReference :: "string \<Rightarrow> string \<times> string option \<times> string option" where
  "parseReference input =
     (let s = filter (\<lambda>c. \<not> isTabOrNewline c)
                (rev (dropWhile isC0ControlOrSpace (rev (dropWhile isC0ControlOrSpace input))))
      in case s of
           [] \<Rightarrow> (input, None, None)
         | c # rest \<Rightarrow>
             if c = CHR ''/'' \<and> (case rest of [] \<Rightarrow> True | d # _ \<Rightarrow> d \<noteq> CHR ''/'' \<and> d \<noteq> CHR 0x5C)
             then (case pathState [] [] rest of
                     (path, more) \<Rightarrow> (serializePath path, queryAndFragment more))
             else (input, None, None))"

section \<open>Regular expressions\<close>

text \<open>
  The patterns the sources use are concatenations of literal characters, character classes,
  counted repetitions and optional groups, anchored at both ends.  \<open>run r s\<close> lists what is
  left of \<open>s\<close> after each way of matching \<open>r\<close> against a prefix of it;
  \<^verbatim>\<open>/^r$/.test(s)\<close> holds when one way leaves nothing.
\<close>

datatype regex =
    Eps
  | Chr char
  | Cls "(char \<times> char) list"
  | Seq regex regex
  | Rep regex nat
  | Opt regex

definition inClass :: "(char \<times> char) list \<Rightarrow> char \<Rightarrow> bool" where
  "inClass rs c = (\<exists>(lo, hi) \<in> set rs. inRange lo hi c)"

primrec runTimes :: "(string \<Rightarrow> string list) \<Rightarrow> nat \<Rightarrow> string \<Rightarrow> string list" where
  "runTimes f 0 s = [s]"
| "runTimes f (Suc n) s = concat (map (runTimes f n) (f s))"

primrec run :: "regex \<Rightarrow> string \<Rightarrow> string list" where
  "run Eps s = [s]"
| "run (Chr c) s = (case s of [] \<Rightarrow> [] | x # xs \<Rightarrow> if x = c then [xs] else [])"
| "run (Cls rs) s = (case s of [] \<Rightarrow> [] | x # xs \<Rightarrow> if inClass rs x then [xs] else [])"
| "run (Seq a b) s = concat (map (run b) (run a s))"
| "run (Rep r n) s = runTimes (run r) n s"
| "run (Opt r) s = run r s @ [s]"

definition regexTest :: "regex \<Rightarrow> string \<Rightarrow> bool" where
  "regexTest r s = ([] \<in> set (run r s))"

definition lit :: "string \<Rightarrow> regex" where
  "lit p = foldr (\<lambda>c r. Seq (Chr c) r) p Eps"

section \<open>Schemas\<close>

text \<open>
  The schemas are built with the zod library, which is a dependency and not part of the
  sources.  Its parser is modelled here as the library documents it.  A string or number
  schema checks the type of the value and then each of its checks.  An object schema parses
  the value of every key of its shape and returns a new object holding those keys only: a
  key of the input that the shape does not name is left out.  A record schema parses every
  value of the input object and returns a new object with the parsed values; neither writes
  a key named \<^verbatim>\<open>__proto__\<close>.  An optional schema accepts undefined.  Every issue carries the
  path of the value it is about; \<^verbatim>\<open>safeParse\<close> succeeds with the parsed value when there is
  no issue.  The \<^verbatim>\<open>describe\<close> calls of the sources only attach documentation and are left out.
\<close>

text \<open>
  Modelled from the spec: the check behind \<^verbatim>\<open>z.string().datetime()\<close>, which lives in zod.
  The spec gives the accepted form as \<^verbatim>\<open>YYYY-MM-DDTHH:MM:SS[.fff]Z\<close>, each letter a digit, the
  fraction optional and the final Z mandatory.
\<close>

definition isoDateTimeRegex :: regex where
  "isoDateTimeRegex =
     (let d = Cls [(CHR ''0'', CHR ''9'')]
      in Seq (Rep d 4) (Seq (Chr CHR ''-'') (Seq (Rep d 2) (Seq (Chr CHR ''-'') (Seq (Rep d 2)
         (Seq (Chr CHR ''T'') (Seq (Rep d 2) (Seq (Chr CHR '':'') (Seq (Rep d 2) (Seq (Chr CHR '':'')
         (Seq (Rep d 2) (Seq (Opt (Seq (Chr CHR ''.'') (Rep d 3))) (Chr CHR ''Z'')))))))))))))"

text \<open>The URL check of zod hands the string to the URL parser of the host, which is a
  parameter of the check here.\<close>

datatype check = Regex regex string | Datetime | Url "string \<Rightarrow> bool"

datatype numcheck = IsInt | NonNegative

datatype schema =
    ZString "check list"
  | ZNumber "numcheck list"
  | ZEnum "string list"
  | ZUnknown
  | ZRecord schema
  | ZObject "(string \<times> schema) list"
  | ZOptional schema

datatype issue = Issue (issuePath: "string list") (issueMessage: string)

fun typeName :: "jsval \<Rightarrow> string" where
  "typeName JUndefined = ''undefined''"
| "typeName JNull = ''null''"
| "typeName (JBool _) = ''boolean''"
| "typeName (JNum NaN) = ''nan''"
| "typeName (JNum _) = ''number''"
| "typeName (JStr _) = ''string''"
| "typeName (JArr _) = ''array''"
| "typeName (JObj _) = ''object''"

definition invalidType :: "string \<Rightarrow> jsval \<Rightarrow> issue" where
  "invalidType expected v =
     Issue [] (if v = JUndefined then ''Required''
               else ''Expected '' @ expected @ '', received '' @ typeName v)"

definition underKey :: "string \<Rightarrow> issue \<Rightarrow> issue" where
  "underKey key e = Issue (key # issuePath e) (issueMessage e)"

fun checkString :: "check \<Rightarrow> string \<Rightarrow> string option" where
  "checkString (Regex r msg) s = (if regexTest r s then None else Some msg)"
| "checkString Datetime s = (if regexTest isoDateTimeRegex s then None else Some ''Invalid datetime'')"
| "checkString (Url valid) s = (if valid s then None else Some ''Invalid url'')"

text \<open>The checks of a number schema: \<^verbatim>\<open>Number.isInteger\<close>, which no infinity passes, and the
  comparison with zero.\<close>

fun isInteger :: "number \<Rightarrow> bool" where
  "isInteger (Finite q) = (of_int \<lfloor>q\<rfloor> = q)"
| "isInteger _ = False"

fun lessThanZero :: "number \<Rightarrow> bool" where
  "lessThanZero (Finite q) = (q < 0)"
| "lessThanZero NegInfinity = True"
| "lessThanZero _ = False"

fun checkNumber :: "numcheck \<Rightarrow> number \<Rightarrow> string option" where
  "checkNumber IsInt x = (if isInteger x then None else Some ''Expected integer, received float'')"
| "checkNumber NonNegative x =
     (if lessThanZero x then Some ''Number must be greater than or equal to 0'' else None)"

text \<open>The merge step that builds the parsed object: a key is written when its value is not
  undefined or the input has the key; a key named \<^verbatim>\<open>__proto__\<close> is never written.\<close>

definition mergeObject :: "(string \<times> jsval \<times> bool) list \<Rightarrow> (string \<times> jsval) list" where
  "mergeObject pairs =
     foldl (\<lambda>finalObject (key, v, alwaysSet).
              if key \<noteq> ''__proto__'' \<and> (v \<noteq> JUndefined \<or> alwaysSet)
              then obj_set finalObject key v else finalObject) [] pairs"

definition enumText :: "string list \<Rightarrow> string" where
  "enumText vals = concat (map (\<lambda>v. '' | '' @ [CHR 0x27] @ v @ [CHR 0x27]) vals)"

fun parse :: "schema \<Rightarrow> jsval \<Rightarrow> issue list \<times> jsval" where
  "parse (ZString cs) v =
     (case v of
        JStr s \<Rightarrow> (map (Issue []) (List.map_filter (\<lambda>c. checkString c s) cs), v)
      | _ \<Rightarrow> ([invalidType ''string'' v], v))"
| "parse (ZNumber cs) v =
     (case v of
        JNum x \<Rightarrow>
          if x = NaN then ([invalidType ''number'' v], v)
          else (map (Issue []) (List.map_filter (\<lambda>c. checkNumber c x) cs), v)
      | _ \<Rightarrow> ([invalidType ''number'' v], v))"
| "parse (ZEnum vals) v =
     (case v of
        JStr s \<Rightarrow>
          if s \<in> set vals then ([], v)
          else ([Issue [] (''Invalid enum value. Expected'' @ drop 2 (enumText vals)
                           @ '', received '' @ [CHR 0x27] @ s @ [CHR 0x27])], v)
      | _ \<Rightarrow> ([invalidType (drop 3 (enumText vals)) v], v))"
| "parse ZUnknown v = ([], v)"
| "parse (ZRecord valueType) v =
     (case v of
        JObj ps \<Rightarrow>
          (let rs = map (\<lambda>(key, x). (key, parse valueType x)) (entries ps)
           in (concat (map (\<lambda>(key, r). map (underKey key) (fst r)) rs),
               JObj (mergeObject (map (\<lambda>(key, r). (key, snd r, True)) rs))))
      | _ \<Rightarrow> ([invalidType ''object'' v], v))"
| "parse (ZObject shape) v =
     (case v of
        JObj ps \<Rightarrow>
          (let rs = map (\<lambda>(key, keyValidator). (key, parse keyValidator (property ps key))) shape
           in (concat (map (\<lambda>(key, r). map (underKey key) (fst r)) rs),
               JObj (mergeObject (map (\<lambda>(key, r). (key, snd r, key \<in> fst ` set ps)) rs))))
      | _ \<Rightarrow> ([invalidType ''object'' v], v))"
| "parse (ZOptional inner) v = (if v = JUndefined then ([], JUndefined) else parse inner v)"

datatype safeParseResult = Success jsval | Failure "issue list"

definition safeParse :: "schema \<Rightarrow> jsval \<Rightarrow> safeParseResult" where
  "safeParse sch v = (case parse sch v of (issues, d) \<Rightarrow> if issues = [] then Success d else Failure issues)"

subsection \<open>The schemas of the wire entities\<close>

definition errorCodes :: "string list" where
  "errorCodes = [''HTTP_4XX'', ''HTTP_5XX'', ''TIMEOUT'', ''ECONNREFUSED'', ''ECONNRESET'',
                 ''ENOTFOUND'', ''DNS_FAILURE'', ''NETWORK_ERROR'', ''UNKNOWN'']"

definition ErrorCodeSchema :: schema where
  "ErrorCodeSchema = ZEnum errorCodes"

definition ISODateTime :: schema where
  "ISODateTime = ZString [Datetime]"

text \<open>The pattern \<^verbatim>\<open>/^message_[0-7][0-9A-HJKMNP-TV-Z]{25}$/\<close>, which the identifier schema
  and \<^verbatim>\<open>parseMessageId\<close> both use.\<close>

definition messageIdRegex :: regex where
  "messageIdRegex =
     Seq (lit ''message_'')
       (Seq (Cls [(CHR ''0'', CHR ''7'')])
            (Rep (Cls [(CHR ''0'', CHR ''9''), (CHR ''A'', CHR ''H''), (CHR ''J'', CHR ''J''),
                       (CHR ''K'', CHR ''K''), (CHR ''M'', CHR ''M''), (CHR ''N'', CHR ''N''),
                       (CHR ''P'', CHR ''T''), (CHR ''V'', CHR ''Z'')]) 25))"

definition MessageId :: schema where
  "MessageId = ZString [Regex messageIdRegex ''Invalid message ID format'']"

definition CallbackErrorSchema :: schema where
  "CallbackErrorSchema = ZObject
     [(''id'', ZString []),
      (''message_id'', MessageId),
      (''error_code'', ErrorCodeSchema),
      (''error_message'', ZString []),
      (''http_status_code'', ZOptional (ZNumber [IsInt])),
      (''created_at'', ISODateTime),
      (''attempt_number'', ZOptional (ZNumber [IsInt])),
      (''duration_ms'', ZOptional (ZNumber [IsInt]))]"

definition MessageResponseSchema :: "(string \<Rightarrow> bool) \<Rightarrow> schema" where
  "MessageResponseSchema urlValid = ZObject
     [(''id'', MessageId),
      (''callback_url'', ZString [Url urlValid]),
      (''payload'', ZRecord ZUnknown),
      (''callback_headers'', ZRecord (ZString [])),
      (''status'', ZEnum [''pending'', ''processing'', ''completed'', ''failed'', ''dead_letter'']),
      (''created_at'', ISODateTime),
      (''updated_at'', ISODateTime),
      (''scheduled_at'', ZOptional ISODateTime),
      (''retry_count'', ZNumber [IsInt, NonNegative]),
      (''max_retries'', ZNumber [IsInt, NonNegative]),
      (''next_retry_at'', ZOptional ISODateTime),
      (''last_error'', ZOptional CallbackErrorSchema),
      (''timezone'', ZOptional (ZString [])),
      (''attempt_number'', ZOptional (ZNumber [IsInt])),
      (''event_count'', ZOptional (ZNumber [IsInt, NonNegative]))]"

section \<open>The validators\<close>

text \<open>\<^verbatim>\<open>result.error.errors[0]?.message || fallback\<close> and \<^verbatim>\<open>Array.prototype.join\<close>.\<close>

definition firstMessage :: "issue list \<Rightarrow> string \<Rightarrow> string" where
  "firstMessage issues dflt =
     (case issues of [] \<Rightarrow> dflt | e # _ \<Rightarrow> if issueMessage e \<noteq> [] then issueMessage e else dflt)"

fun joinWith :: "string \<Rightarrow> string list \<Rightarrow> string" where
  "joinWith sep [] = []"
| "joinWith sep [x] = x"
| "joinWith sep (x # y # ys) = x @ sep @ joinWith sep (y # ys)"

definition parseMessageId :: "string \<Rightarrow> native_error + jsval" where
  "parseMessageId messageId =
     (let messageIdSchema =
            ZString [Regex messageIdRegex
              ''Invalid message ID format. Expected: message_[0-7][0-9A-HJKMNP-TV-Z]{25}'']
      in case safeParse messageIdSchema (JStr messageId) of
           Failure issues \<Rightarrow> Inl (Error (firstMessage issues ''Invalid message ID''))
         | Success d \<Rightarrow> Inr d)"

definition validateTimestamp :: "string \<Rightarrow> native_error + jsval" where
  "validateTimestamp timestamp =
     (let datetimeSchema = ZString [Datetime]
      in case safeParse datetimeSchema (JStr timestamp) of
           Failure issues \<Rightarrow>
             Inl (Error (firstMessage issues
               ''Invalid timestamp format. Expected ISO 8601 format (e.g., 2025-10-23T10:30:00.000Z)''))
         | Success d \<Rightarrow> Inr d)"

definition validateMessageResponse :: "(string \<Rightarrow> bool) \<Rightarrow> jsval \<Rightarrow> native_error + jsval" where
  "validateMessageResponse urlValid data =
     (case safeParse (MessageResponseSchema urlValid) data of
        Failure issues \<Rightarrow>
          Inl (Error (''Invalid message response: ''
                 @ joinWith ''; '' (map (\<lambda>e. joinWith ''.'' (issuePath e) @ '': '' @ issueMessage e) issues)))
      | Success d \<Rightarrow> Inr d)"

section \<open>The error classes\<close>

text \<open>
  The classes of \<^verbatim>\<open>errors.ts\<close>, as the README documents them.  Every class extends
  \<^verbatim>\<open>InlineError\<close>, so \<^verbatim>\<open>instanceof InlineError\<close> holds of exactly the values of this
  type.  The machine code and the HTTP status that each constructor passes to
  \<^verbatim>\<open>super\<close> are functions of the class.
\<close>

datatype inline_error =
    ApiError string nat string
  | NetworkError string "native_error option"
  | ValidationError string
  | AuthenticationError string
  | AuthorizationError string
  | NotFoundError string
  | RateLimitError string "number option"
  | ServerError string nat

fun error_code :: "inline_error \<Rightarrow> string" where
  "error_code (ApiError _ _ _) = ''API_ERROR''"
| "error_code (NetworkError _ _) = ''NETWORK_ERROR''"
| "error_code (ValidationError _) = ''VALIDATION_ERROR''"
| "error_code (AuthenticationError _) = ''AUTHENTICATION_ERROR''"
| "error_code (AuthorizationError _) = ''AUTHORIZATION_ERROR''"
| "error_code (NotFoundError _) = ''NOT_FOUND''"
| "error_code (RateLimitError _ _) = ''RATE_LIMIT''"
| "error_code (ServerError _ _) = ''SERVER_ERROR''"

fun error_status :: "inline_error \<Rightarrow> nat option" where
  "error_status (ApiError _ st _) = Some st"
| "error_status (NetworkError _ _) = None"
| "error_status (ValidationError _) = None"
| "error_status (AuthenticationError _) = Some 401"
| "error_status (AuthorizationError _) = Some 403"
| "error_status (NotFoundError _) = Some 404"
| "error_status (RateLimitError _ _) = Some 429"
| "error_status (ServerError _ st) = Some st"

fun retryAfter :: "inline_error \<Rightarrow> number option" where
  "retryAfter (RateLimitError _ r) = r"
| "retryAfter _ = None"

text \<open>What a \<^verbatim>\<open>throw\<close> can carry: an error of the SDK, or any other exception.\<close>

datatype thrown = Inline inline_error | Native native_error

datatype 'a outcome = Return 'a | Throw thrown

section \<open>The transport\<close>

record response =
  status :: nat
  statusText :: string
  responseHeaders :: "(string \<times> string) list"
  bodyText :: string
  bodyJson :: "jsval option"

text \<open>
  \<open>responseHeaders\<close> holds the header list of the response under lower-case names, as a
  \<^verbatim>\<open>Headers\<close> object keeps them; \<open>bodyText\<close> is what \<^verbatim>\<open>response.text()\<close> resolves to;
  \<open>bodyJson\<close> is what \<^verbatim>\<open>response.json()\<close> resolves to, \<open>None\<close> when the body is not JSON
  and the call rejects with a SyntaxError.
\<close>

definition headers_get :: "(string \<times> string) list \<Rightarrow> string \<Rightarrow> string option" where
  "headers_get hs name = map_of hs (map lowerChar name)"

definition ok :: "response \<Rightarrow> bool" where
  "ok r = (200 \<le> status r \<and> status r \<le> 299)"

text \<open>
  The arguments of one \<^verbatim>\<open>fetch\<close> call.  The URL is kept in its parts: the base, whose
  scheme, host and port it has; the path, query and fragment that the parser reads from the
  reference; and the pairs appended to \<^verbatim>\<open>url.searchParams\<close> (each value is the one
  \<^verbatim>\<open>String(value)\<close> is applied to), which follow the pairs of the query of the reference in
  the query that is sent.  \<open>body\<close> is the value whose \<^verbatim>\<open>JSON.stringify\<close> text is sent.
  \<open>abortAfter\<close> is the delay in milliseconds after which the \<^verbatim>\<open>AbortController\<close> behind
  \<^verbatim>\<open>signal\<close> aborts.
\<close>

record fetch_call =
  urlBase :: string
  urlPath :: string
  urlQuery :: "string option"
  urlFragment :: "string option"
  searchParams :: "(string \<times> jsval) list"
  fetchMethod :: string
  fetchHeaders :: "(string \<times> string) list"
  body :: "jsval option"
  abortAfter :: nat

text \<open>A \<^verbatim>\<open>fetch\<close> call resolves to a response or rejects with an exception; a transport
  says which, for each call.\<close>

datatype fetch_result = Resolved response | Rejected thrown

type_synonym transport = "fetch_call \<Rightarrow> fetch_result"

text \<open>
  A transport that honours the abort signal, as \<^verbatim>\<open>fetch\<close> does.  The server settles a call
  after a latency in milliseconds; when the timer of the call fires before that, the
  controller aborts and \<^verbatim>\<open>fetch\<close> rejects with the abort reason, which for
  \<^verbatim>\<open>controller.abort()\<close> is a DOMException named AbortError.
\<close>

definition abortReason :: thrown where
  "abortReason = Native (DOMException ''AbortError'' ''The operation was aborted.'')"

definition withSignal :: "(fetch_call \<Rightarrow> nat \<times> fetch_result) \<Rightarrow> transport" where
  "withSignal server call =
     (case server call of
        (latency, result) \<Rightarrow> if abortAfter call < latency then Rejected abortReason else result)"

section \<open>The client\<close>

text \<open>
  The client after its construction.  \<open>apiUrl\<close> is the configured base without one trailing
  slash, and is taken to be a base that \<^verbatim>\<open>new URL\<close> accepts, an absolute URL with the scheme
  http or https, as in the documentation and the tests; with any other base \<^verbatim>\<open>new URL\<close>
  throws a TypeError before the try block of \<^verbatim>\<open>request\<close>, which is outside this model.
\<close>

record InlineClient =
  apiUrl :: string
  token :: string
  timeout :: nat

record request_options =
  optBody :: "jsval option"
  optQuery :: "(string \<times> jsval) list option"

text \<open>The query loop of \<^verbatim>\<open>request\<close>: every entry whose value is neither undefined nor
  null is appended.\<close>

definition appendQuery :: "(string \<times> jsval) list \<Rightarrow> (string \<times> jsval) list" where
  "appendQuery q = filter (\<lambda>(k, v). v \<noteq> JUndefined \<and> v \<noteq> JNull) q"

text \<open>The status checks of \<^verbatim>\<open>request\<close>, in the order of the source, and the parse of a
  successful response.\<close>

definition handleResponse :: "response \<Rightarrow> jsval outcome" where
  "handleResponse r =
     (if status r = 401 then Throw (Inline (AuthenticationError ''Invalid or expired token''))
      else if status r = 403 then
        Throw (Inline (AuthorizationError ''Not authorized to access this resource''))
      else if status r = 404 then Throw (Inline (NotFoundError ''Resource not found''))
      else if status r = 429 then
        (let retryAfterHeader = headers_get (responseHeaders r) ''Retry-After''
         in Throw (Inline (RateLimitError ''Rate limited''
              (case retryAfterHeader of
                 None \<Rightarrow> None
               | Some h \<Rightarrow> if h \<noteq> [] then Some (parseInt10 h) else None))))
      else if status r \<ge> 500 then
        Throw (Inline (ServerError
          (''Server error: '' @ (if bodyText r \<noteq> [] then bodyText r else statusText r))
          (status r)))
      else if \<not> ok r then
        Throw (Inline (ApiError
          (''API error: '' @ (if bodyText r \<noteq> [] then bodyText r else statusText r))
          (status r) (bodyText r)))
      else (case bodyJson r of
              Some data \<Rightarrow> Return data
            | None \<Rightarrow> Throw (Native (SyntaxError ''JSON Parse error''))))"

text \<open>The catch clause of \<^verbatim>\<open>request\<close>: an InlineError is thrown again, a TypeError is
  wrapped, anything else is thrown again.\<close>

fun catchClause :: "thrown \<Rightarrow> thrown" where
  "catchClause (Inline e) = Inline e"
| "catchClause (Native (TypeError m)) =
     Inline (NetworkError ''Network error'' (Some (TypeError m)))"
| "catchClause (Native e) = Native e"

definition buildCall ::
  "InlineClient \<Rightarrow> string \<Rightarrow> string \<Rightarrow> request_options option \<Rightarrow> fetch_call" where
  "buildCall c m path options =
     \<lparr> urlBase = apiUrl c,
       urlPath = fst (parseReference path),
       urlQuery = fst (snd (parseReference path)),
       urlFragment = snd (snd (parseReference path)),
       searchParams =
         (case options of
            None \<Rightarrow> []
          | Some opts \<Rightarrow> (case optQuery opts of None \<Rightarrow> [] | Some q \<Rightarrow> appendQuery q)),
       fetchMethod = m,
       fetchHeaders =
         [(''Content-Type'', ''application/json''), (''Authorization'', ''Bearer '' @ token c)],
       body =
         (case options of
            None \<Rightarrow> None
          | Some opts \<Rightarrow>
              (case optBody opts of
                 None \<Rightarrow> None
               | Some b \<Rightarrow> if truthy b then Some b else None)),
       abortAfter = timeout c \<rparr>"

text \<open>
  \<^verbatim>\<open>request\<close> takes the transport and the list of the calls made to it so far, and returns
  its outcome with the list extended by its own call.
\<close>

definition request ::
  "InlineClient \<Rightarrow> transport \<Rightarrow> string \<Rightarrow> string \<Rightarrow> request_options option
     \<Rightarrow> fetch_call list \<Rightarrow> jsval outcome \<times> fetch_call list" where
  "request c fetch m path options calls =
     (let call = buildCall c m path options;
          result = (case fetch call of
                      Rejected e \<Rightarrow> Throw e
                    | Resolved r \<Rightarrow> handleResponse r)
      in (case result of
            Return data \<Rightarrow> (Return data, calls @ [call])
          | Throw e \<Rightarrow> (Throw (catchClause e), calls @ [call])))"

subsection \<open>publish\<close>

record PublishOptions =
  headers :: "(string \<times> string) list option"
  delay :: "string option"
  notBefore :: "string option"
  timezone :: "string option"
  method' :: "string option"

text \<open>\<^verbatim>\<open>options?.field\<close>: undefined when there are no options.  The field \<^verbatim>\<open>method\<close> of
  the options is \<open>method'\<close> here.\<close>

definition optional :: "('o \<Rightarrow> 'a option) \<Rightarrow> 'o option \<Rightarrow> 'a option" where
  "optional f options = (case options of None \<Rightarrow> None | Some opts \<Rightarrow> f opts)"

text \<open>The template \<^verbatim>\<open>`Queue-Forward-${key}`\<close>, and the loop over
  \<^verbatim>\<open>Object.entries(options.headers)\<close> that both branches run.\<close>

definition forwardKey :: "string \<Rightarrow> string" where
  "forwardKey key = ''Queue-Forward-'' @ key"

definition forwardHeaders ::
  "(string \<times> jsval) list \<Rightarrow> (string \<times> string) list \<Rightarrow> (string \<times> jsval) list" where
  "forwardHeaders obj hs = foldl (\<lambda>acc (key, v). obj_set acc (forwardKey key) (JStr v)) obj hs"

text \<open>\<^verbatim>\<open>if (cond) obj[key] = value\<close>.\<close>

definition setIf :: "bool \<Rightarrow> string \<Rightarrow> jsval \<Rightarrow> (string \<times> jsval) list \<Rightarrow> (string \<times> jsval) list" where
  "setIf cond k v obj = (if cond then obj_set obj k v else obj)"

definition httpMethod :: "PublishOptions option \<Rightarrow> string" where
  "httpMethod options =
     (if truthy_str (optional method' options) then toUpperCase (the (optional method' options))
      else ''POST'')"

definition publishQuery :: "PublishOptions option \<Rightarrow> (string \<times> jsval) list" where
  "publishQuery options =
     (let q0 = [];
          q1 = setIf (truthy_str (optional delay options)) ''Queue-Delay''
                 (JStr (the (optional delay options))) q0;
          q2 = setIf (truthy_str (optional notBefore options)) ''Queue-notBefore''
                 (JStr (the (optional notBefore options))) q1;
          q3 = setIf (truthy_str (optional timezone options)) ''Queue-timezone''
                 (JStr (the (optional timezone options))) q2;
          q4 = setIf (truthy_str (optional method' options)) ''Queue-Method''
                 (JStr (httpMethod options)) q3
      in (case optional headers options of
            None \<Rightarrow> q4
          | Some hs \<Rightarrow> forwardHeaders q4 hs))"

definition publishBody ::
  "(string \<times> jsval) list \<Rightarrow> PublishOptions option \<Rightarrow> (string \<times> jsval) list" where
  "publishBody payload options =
     (let b0 = payload;
          b1 = (case optional headers options of
                  None \<Rightarrow> b0
                | Some hs \<Rightarrow> forwardHeaders b0 hs);
          b2 = setIf (truthy_str (optional delay options)) ''Queue-Delay''
                 (JStr (the (optional delay options))) b1;
          b3 = setIf (truthy_str (optional notBefore options)) ''Queue-notBefore''
                 (JStr (the (optional notBefore options))) b2;
          b4 = setIf (truthy_str (optional timezone options)) ''Queue-timezone''
                 (JStr (the (optional timezone options))) b3
      in setIf (truthy_str (optional method' options)) ''Queue-Method''
           (JStr (httpMethod options)) b4)"

definition publish ::
  "InlineClient \<Rightarrow> transport \<Rightarrow> string \<Rightarrow> (string \<times> jsval) list \<Rightarrow> PublishOptions option
     \<Rightarrow> fetch_call list \<Rightarrow> jsval outcome \<times> fetch_call list" where
  "publish c fetch callbackUrl payload options calls =
     (if callbackUrl = [] then
        (Throw (Inline (ValidationError ''callbackUrl is required'')), calls)
      else
        (let encodedUrl = encodeURIComponent callbackUrl
         in if httpMethod options = ''GET'' then
              (let query = publishQuery options
               in request c fetch ''GET'' (''/publish/'' @ encodedUrl)
                    (if length query > 0
                     then Some \<lparr> optBody = None, optQuery = Some query \<rparr>
                     else None)
                    calls)
            else
              request c fetch (httpMethod options) (''/publish/'' @ encodedUrl)
                (Some \<lparr> optBody = Some (JObj (publishBody payload options)), optQuery = None \<rparr>)
                calls))"

subsection \<open>The other operations\<close>

definition getMessage ::
  "InlineClient \<Rightarrow> transport \<Rightarrow> string \<Rightarrow> fetch_call list \<Rightarrow> jsval outcome \<times> fetch_call list" where
  "getMessage c fetch messageId calls =
     (if messageId = [] then (Throw (Inline (ValidationError ''messageId is required'')), calls)
      else request c fetch ''GET'' (''/messages/'' @ messageId) None calls)"

record ListMessagesOptions =
  limit :: "number option"
  offset :: "number option"
  statusFilter :: "string option"

definition listMessages ::
  "InlineClient \<Rightarrow> transport \<Rightarrow> ListMessagesOptions option \<Rightarrow> fetch_call list
     \<Rightarrow> jsval outcome \<times> fetch_call list" where
  "listMessages c fetch options calls =
     (let query0 =
            [(''limit'', JNum (case optional limit options of None \<Rightarrow> Finite 10 | Some n \<Rightarrow> n)),
             (''offset'', JNum (case optional offset options of None \<Rightarrow> Finite 0 | Some n \<Rightarrow> n))];
          query = setIf (truthy_str (optional statusFilter options)) ''status''
                    (JStr (the (optional statusFilter options))) query0
      in request c fetch ''GET'' ''/messages'' (Some \<lparr> optBody = None, optQuery = Some query \<rparr>)
           calls)"

definition getMessages ::
  "InlineClient \<Rightarrow> transport \<Rightarrow> ListMessagesOptions option \<Rightarrow> fetch_call list
     \<Rightarrow> jsval outcome \<times> fetch_call list" where
  "getMessages c fetch options calls = listMessages c fetch options calls"

definition getMessageTimeline ::
  "InlineClient \<Rightarrow> transport \<Rightarrow> string \<Rightarrow> fetch_call list \<Rightarrow> jsval outcome \<times> fetch_call list" where
  "getMessageTimeline c fetch messageId calls =
     (if messageId = [] then (Throw (Inline (ValidationError ''messageId is required'')), calls)
      else request c fetch ''GET'' (''/messages/'' @ messageId @ ''/timeline'') None calls)"

definition retryMessage ::
  "InlineClient \<Rightarrow> transport \<Rightarrow> string \<Rightarrow> fetch_call list \<Rightarrow> jsval outcome \<times> fetch_call list" where
  "retryMessage c fetch messageId calls =
     (if messageId = [] then (Throw (Inline (ValidationError ''messageId is required'')), calls)
      else request c fetch ''POST'' (''/messages/'' @ messageId @ ''/retry'') None calls)"

definition getHealth ::
  "InlineClient \<Rightarrow> transport \<Rightarrow> fetch_call list \<Rightarrow> jsval outcome \<times> fetch_call list" where
  "getHealth c fetch calls = request c fetch ''GET'' ''/health'' None calls"

definition getHealthReady ::
  "InlineClient \<Rightarrow> transport \<Rightarrow> fetch_call list \<Rightarrow> jsval outcome \<times> fetch_call list" where
  "getHealthReady c fetch calls = request c fetch ''GET'' ''/health/ready'' None calls"

definition getDebugMessages ::
  "InlineClient \<Rightarrow> transport \<Rightarrow> fetch_call list \<Rightarrow> jsval outcome \<times> fetch_call list" where
  "getDebugMessages c fetch calls = request c fetch ''GET'' ''/debug/messages'' None calls"

definition getDebugStats ::
  "InlineClient \<Rightarrow> transport \<Rightarrow> fetch_call list \<Rightarrow> jsval outcome \<times> fetch_call list" where
  "getDebugStats c fetch calls = request c fetch ''GET'' ''/debug/stats'' None calls"

definition getErrorStats ::
  "InlineClient \<Rightarrow> transport \<Rightarrow> fetch_call list \<Rightarrow> jsval outcome \<times> fetch_call list" where
  "getErrorStats c fetch calls = request c fetch ''GET'' ''/errors/stats'' None calls"

definition getDeadLetterErrors ::
  "InlineClient \<Rightarrow> transport \<Rightarrow> fetch_call list \<Rightarrow> jsval outcome \<times> fetch_call list" where
  "getDeadLetterErrors c fetch calls = request c fetch ''GET'' ''/errors/deadletter'' None calls"

text \<open>\<^verbatim>\<open>return response.errors\<close>, after the awaited \<^verbatim>\<open>request\<close>: the property read happens
  outside the try block of \<^verbatim>\<open>request\<close>, so what it throws is not caught.\<close>

definition returnErrors :: "jsval outcome \<times> fetch_call list \<Rightarrow> jsval outcome \<times> fetch_call list" where
  "returnErrors res =
     (case res of
        (Throw e, calls') \<Rightarrow> (Throw e, calls')
      | (Return response, calls') \<Rightarrow>
          (case get_member response ''errors'' of
             Inl e \<Rightarrow> (Throw (Native e), calls')
           | Inr v \<Rightarrow> (Return v, calls')))"

definition getErrorsByCode ::
  "InlineClient \<Rightarrow> transport \<Rightarrow> string \<Rightarrow> fetch_call list \<Rightarrow> jsval outcome \<times> fetch_call list" where
  "getErrorsByCode c fetch code calls =
     (if code = [] then (Throw (Inline (ValidationError ''code is required'')), calls)
      else returnErrors (request c fetch ''GET'' (''/errors/by-code/'' @ code) None calls))"

definition getMessageErrors ::
  "InlineClient \<Rightarrow> transport \<Rightarrow> string \<Rightarrow> fetch_call list \<Rightarrow> jsval outcome \<times> fetch_call list" where
  "getMessageErrors c fetch messageId calls =
     (if messageId = [] then (Throw (Inline (ValidationError ''messageId is required'')), calls)
      else returnErrors (request c fetch ''GET'' (''/errors/message/'' @ messageId) None calls))"

text \<open>
  Modelled from the spec: \<^verbatim>\<open>cancelMessage\<close>, which the tests call and the client source at
  hand does not define.  The spec gives it the method DELETE and the path
  \<^verbatim>\<open>/messages/{id}\<close>, and has it throw ValidationError on the empty identifier without a
  network call.
\<close>

definition cancelMessage ::
  "InlineClient \<Rightarrow> transport \<Rightarrow> string \<Rightarrow> fetch_call list \<Rightarrow> jsval outcome \<times> fetch_call list" where
  "cancelMessage c fetch messageId calls =
     (if messageId = [] then (Throw (Inline (ValidationError ''messageId is required'')), calls)
      else request c fetch ''DELETE'' (''/messages/'' @ messageId) None calls)"

section \<open>Forms of identifiers, timestamps and values\<close>

text \<open>
  The forms the claims speak of.  \<open>messageIdForm n s\<close>: the prefix \<^verbatim>\<open>message_\<close> followed by
  exactly \<open>n\<close> characters, the first of them from 0 to 7 and the others from the alphabet
  of digits and upper-case letters without I, L, O and U.
\<close>

definition crockfordAlphabet :: string where
  "crockfordAlphabet = ''0123456789ABCDEFGHJKMNPQRSTVWXYZ''"

definition octalDigits :: string where
  "octalDigits = ''01234567''"

definition messageIdForm :: "nat \<Rightarrow> string \<Rightarrow> bool" where
  "messageIdForm n s =
     (take 8 s = ''message_'' \<and> length (drop 8 s) = n \<and>
      (case drop 8 s of
         [] \<Rightarrow> False
       | c # rest \<Rightarrow> c \<in> set octalDigits \<and> (\<forall>x \<in> set rest. x \<in> set crockfordAlphabet)))"

text \<open>\<open>isoTimestampForm s\<close>: \<open>s\<close> reads \<^verbatim>\<open>YYYY-MM-DDTHH:MM:SS\<close>, then either \<^verbatim>\<open>Z\<close> or
  \<^verbatim>\<open>.fff\<close> and \<^verbatim>\<open>Z\<close>, with a digit for each letter.  \<open>dateOnlyForm s\<close>: \<open>s\<close> reads
  \<^verbatim>\<open>YYYY-MM-DD\<close> and nothing more.  A numeric epoch is a string of digits.\<close>

definition digits :: "string \<Rightarrow> bool" where
  "digits s = (\<forall>c \<in> set s. isDigit c)"

definition digitsAt :: "string \<Rightarrow> nat \<Rightarrow> nat \<Rightarrow> bool" where
  "digitsAt s i n = (i + n \<le> length s \<and> digits (take n (drop i s)))"

definition charAt :: "string \<Rightarrow> nat \<Rightarrow> char \<Rightarrow> bool" where
  "charAt s i c = (i < length s \<and> s ! i = c)"

definition isoTimestampForm :: "string \<Rightarrow> bool" where
  "isoTimestampForm s =
     (digitsAt s 0 4 \<and> charAt s 4 CHR ''-'' \<and> digitsAt s 5 2 \<and> charAt s 7 CHR ''-'' \<and>
      digitsAt s 8 2 \<and> charAt s 10 CHR ''T'' \<and> digitsAt s 11 2 \<and> charAt s 13 CHR '':'' \<and>
      digitsAt s 14 2 \<and> charAt s 16 CHR '':'' \<and> digitsAt s 17 2 \<and>
      ((charAt s 19 CHR ''Z'' \<and> length s = 20) \<or>
       (charAt s 19 CHR ''.'' \<and> digitsAt s 20 3 \<and> charAt s 23 CHR ''Z'' \<and> length s = 24)))"

definition dateOnlyForm :: "string \<Rightarrow> bool" where
  "dateOnlyForm s =
     (digitsAt s 0 4 \<and> charAt s 4 CHR ''-'' \<and> digitsAt s 5 2 \<and> charAt s 7 CHR ''-'' \<and>
      digitsAt s 8 2 \<and> length s = 10)"



text \<open>The keys that the non-GET branch of \<^verbatim>\<open>publish\<close> writes for given options.\<close>

definition reservedKeys :: "PublishOptions option \<Rightarrow> string set" where
  "reservedKeys options =
     forwardKey ` fst ` set (case optional headers options of None \<Rightarrow> [] | Some hs \<Rightarrow> hs)
     \<union> (if truthy_str (optional delay options) then {''Queue-Delay''} else {})
     \<union> (if truthy_str (optional notBefore options) then {''Queue-notBefore''} else {})
     \<union> (if truthy_str (optional timezone options) then {''Queue-timezone''} else {})
     \<union> (if truthy_str (optional method' options) then {''Queue-Method''} else {})"

section \<open>Auxiliary definitions\<close>

definition crockfordRanges :: "(char \<times> char) list" where
  "crockfordRanges = [(CHR ''0'', CHR ''9''), (CHR ''A'', CHR ''H''), (CHR ''J'', CHR ''J''),
                       (CHR ''K'', CHR ''K''), (CHR ''M'', CHR ''M''), (CHR ''N'', CHR ''N''),
                       (CHR ''P'', CHR ''T''), (CHR ''V'', CHR ''Z'')]"


definition digitClass :: regex where
  "digitClass = Cls [(CHR ''0'', CHR ''9'')]"



section \<open>Example values\<close>

definition client0 :: InlineClient where
  "client0 = \<lparr> apiUrl = ''http://localhost:3000'', token = ''test-api-key-12345'', timeout = 30000 \<rparr>"

definition respond :: "nat \<Rightarrow> (string \<times> string) list \<Rightarrow> string \<Rightarrow> jsval option \<Rightarrow> transport" where
  "respond st hs txt js =
     (\<lambda>_. Resolved \<lparr> status = st, statusText = [], responseHeaders = hs, bodyText = txt,
                      bodyJson = js \<rparr>)"

definition slowServer :: "fetch_call \<Rightarrow> nat \<times> fetch_result" where
  "slowServer call =
     (200, Resolved \<lparr> status = 200, statusText = ''OK'', responseHeaders = [], bodyText = ''{}'',
                       bodyJson = Some (JObj []) \<rparr>)"

definition opts0 :: PublishOptions where
  "opts0 = \<lparr> headers = None, delay = None, notBefore = None, timezone = None, method' = None \<rparr>"

definition errorsBody :: jsval where
  "errorsBody = JObj [(''summary'', JObj [(''errorCode'', JStr ''TIMEOUT''), (''count'', JNum (Finite 1))]),
                      (''errors'', JArr [JObj [(''id'', JStr ''err_1'')]])]"


definition urlValid0 :: "string \<Rightarrow> bool" where
  "urlValid0 s = (take 8 s = ''https://'' \<and> 8 < length s)"


definition message1_parsed :: jsval where
  "message1_parsed = JObj
     [(''id'', JStr ''message_000004QYYDCF9PHB9C6VWVHZEZ''),
      (''callback_url'', JStr ''https://example.com/webhook''),
      (''payload'', JObj [(''event'', JStr ''test'')]),
      (''callback_headers'', JObj [(''X-API-Key'', JStr ''secret'')]),
      (''status'', JStr ''pending''),
      (''created_at'', JStr ''2025-10-23T10:30:00.000Z''),
      (''updated_at'', JStr ''2025-10-23T10:30:00.000Z''),
      (''retry_count'', JNum (Finite 0)),
      (''max_retries'', JNum (Finite 3))]"

definition message3 :: jsval where
  "message3 = JObj
     [(''id'', JStr ''message_000004QYYDCF9PHB9C6VWVHZEZ''),
      (''callback_url'', JStr ''https://example.com/webhook''),
      (''payload'', JObj [(''event'', JStr ''test''), (''__proto__'', JObj [])]),
      (''callback_headers'', JObj [(''X-API-Key'', JStr ''secret'')]),
      (''status'', JStr ''pending''),
      (''created_at'', JStr ''2025-10-23T10:30:00.000Z''),
      (''updated_at'', JStr ''2025-10-23T10:30:00.000Z''),
      (''retry_count'', JNum (Finite 0)),
      (''max_retries'', JNum (Finite 3))]"


section \<open>Lemmas about regular expressions\<close>

lemma run_lit: "run (lit p) s = (if take (length p) s = p then [drop (length p) s] else [])"
proof (induction p arbitrary: s)
  case Nil
  then show ?case by (simp add: lit_def)
next
  case (Cons c p)
  have l: "lit (c # p) = Seq (Chr c) (lit p)" by (simp add: lit_def)
  show ?case
  proof (cases s)
    case Nil
    then show ?thesis by (simp add: l)
  next
    case (Cons x xs)
    then show ?thesis using Cons.IH[of xs] by (simp add: l)
  qed
qed

lemma runTimes_char:
  assumes f: "\<And>s. f s = (case s of [] \<Rightarrow> [] | x # xs \<Rightarrow> if P x then [xs] else [])"
  shows "runTimes f n s =
     (if n \<le> length s \<and> (\<forall>c \<in> set (take n s). P c) then [drop n s] else [])"
proof (induction n arbitrary: s)
  case 0
  then show ?case by simp
next
  case (Suc n)
  show ?case
  proof (cases s)
    case Nil
    have "f [] = []" by (simp add: f)
    then show ?thesis using Nil by simp
  next
    case (Cons x xs)
    have fx: "f (x # xs) = (if P x then [xs] else [])" by (simp add: f)
    show ?thesis
    proof (cases "P x")
      case True
      then have "runTimes f (Suc n) s = runTimes f n xs" using Cons fx by simp
      then show ?thesis using Suc.IH[of xs] Cons True by simp
    next
      case False
      then have "runTimes f (Suc n) s = []" using Cons fx by simp
      then show ?thesis using Cons False by simp
    qed
  qed
qed

lemma run_Rep_Cls:
  "run (Rep (Cls rs) n) s =
     (if n \<le> length s \<and> (\<forall>c \<in> set (take n s). inClass rs c) then [drop n s] else [])"
  using runTimes_char[of "run (Cls rs)" "inClass rs" n s] by simp

lemma digit_range: "(48 \<le> n \<and> n \<le> 57) = (n \<in> {48, 49, 50, 51, 52, 53, 54, 55, 56, 57::nat})"
  by (simp only: insert_iff empty_iff) arith

lemma upper_ranges:
  "(65 \<le> n \<and> n \<le> 72) = (n \<in> {65, 66, 67, 68, 69, 70, 71, 72::nat})"
  "(74 \<le> n \<and> n \<le> 74) = (n \<in> {74::nat})"
  "(75 \<le> n \<and> n \<le> 75) = (n \<in> {75::nat})"
  "(77 \<le> n \<and> n \<le> 77) = (n \<in> {77::nat})"
  "(78 \<le> n \<and> n \<le> 78) = (n \<in> {78::nat})"
  "(80 \<le> n \<and> n \<le> 84) = (n \<in> {80, 81, 82, 83, 84::nat})"
  "(86 \<le> n \<and> n \<le> 90) = (n \<in> {86, 87, 88, 89, 90::nat})"
  by (simp_all only: insert_iff empty_iff) arith+

lemma crockford_class: "inClass crockfordRanges c \<longleftrightarrow> c \<in> set crockfordAlphabet"
proof -
  have "c \<in> set crockfordAlphabet \<longleftrightarrow> (of_char c :: nat) \<in> of_char ` set crockfordAlphabet"
    by (auto simp: image_iff)
  also have "\<dots> \<longleftrightarrow> inClass crockfordRanges c"
    unfolding inClass_def inRange_def crockfordRanges_def crockfordAlphabet_def
    by (simp add: digit_range upper_ranges del: insert_iff) blast
  finally show ?thesis by simp
qed

lemma mem_via_code: "c \<in> set cs \<longleftrightarrow> (of_char c :: nat) \<in> set (map of_char cs)"
  by (induction cs) auto

lemma octal_class: "inClass [(CHR ''0'', CHR ''7'')] c \<longleftrightarrow> c \<in> set octalDigits"
proof -
  have r: "\<And>n. (48 \<le> n \<and> n \<le> 55) = (n \<in> {48, 49, 50, 51, 52, 53, 54, 55::nat})"
    by (simp only: insert_iff empty_iff) arith
  have "c \<in> set octalDigits \<longleftrightarrow> (of_char c :: nat) \<in> set (map of_char octalDigits)"
    by (rule mem_via_code)
  also have "\<dots> \<longleftrightarrow> inClass [(CHR ''0'', CHR ''7'')] c"
    unfolding inClass_def inRange_def octalDigits_def by (simp add: r del: insert_iff)
  finally show ?thesis by simp
qed

lemma run_Seq_single:
  "run a s = (if A then [s'] else []) \<Longrightarrow> run (Seq a b) s = (if A then run b s' else [])"
  by simp

lemma messageIdRegex_test: "regexTest messageIdRegex s \<longleftrightarrow> messageIdForm 26 s"
proof -
  let ?tail = "Seq (Cls [(CHR ''0'', CHR ''7'')]) (Rep (Cls crockfordRanges) 25)"
  have m: "messageIdRegex = Seq (lit ''message_'') ?tail"
    by (simp add: messageIdRegex_def crockfordRanges_def)
  have l: "length ''message_'' = 8" by simp
  have "run (lit ''message_'') s = (if take 8 s = ''message_'' then [drop 8 s] else [])"
    using run_lit[of "''message_''" s] by (simp only: l)
  then have 1: "run messageIdRegex s = (if take 8 s = ''message_'' then run ?tail (drop 8 s) else [])"
    unfolding m by (rule run_Seq_single)
  show ?thesis
  proof (cases "drop 8 s")
    case Nil
    then show ?thesis by (simp add: regexTest_def 1 messageIdForm_def)
  next
    case (Cons c rest)
    have "run ?tail (c # rest)
            = (if inClass [(CHR ''0'', CHR ''7'')] c then run (Rep (Cls crockfordRanges) 25) rest else [])"
      by simp
    then have "[] \<in> set (run ?tail (c # rest)) \<longleftrightarrow>
                 c \<in> set octalDigits \<and> length rest = 25 \<and> (\<forall>x \<in> set rest. x \<in> set crockfordAlphabet)"
      by (auto simp: run_Rep_Cls octal_class crockford_class simp del: run.simps)
    then show ?thesis
      using Cons by (auto simp: regexTest_def 1 messageIdForm_def simp del: run.simps)
  qed
qed

lemma safeParse_regex:
  "safeParse (ZString [Regex r msg]) (JStr s)
     = (if regexTest r s then Success (JStr s) else Failure [Issue [] msg])"
  by (simp add: safeParse_def List.map_filter_def)

lemma digit_class: "inClass [(CHR ''0'', CHR ''9'')] c \<longleftrightarrow> isDigit c"
  by (simp add: inClass_def isDigit_def)

lemma run_digits:
  "0 < n \<Longrightarrow> run (Rep digitClass n) (drop i s) = (if digitsAt s i n then [drop (i + n) s] else [])"
  unfolding digitClass_def run_Rep_Cls
  by (auto simp: digitsAt_def digits_def digit_class add.commute)

lemma run_char:
  "run (Chr c) (drop i s) = (if charAt s i c then [drop (Suc i) s] else [])"
proof (cases "i < length s")
  case True
  then have "drop i s = s ! i # drop (Suc i) s" by (rule Cons_nth_drop_Suc[symmetric])
  then show ?thesis using True by (simp add: charAt_def)
next
  case False
  then show ?thesis by (simp add: charAt_def)
qed

lemma run_block:
  "0 < n \<Longrightarrow> run (Seq (Rep digitClass n) (Seq (Chr c) r)) (drop i s)
     = (if digitsAt s i n \<and> charAt s (i + n) c then run r (drop (Suc (i + n)) s) else [])"
proof -
  assume n: "0 < n"
  have "run (Seq (Chr c) r) (drop (i + n) s) = (if charAt s (i + n) c then run r (drop (Suc (i + n)) s) else [])"
    using run_char[of c "i + n" s] by (rule run_Seq_single)
  moreover have "run (Seq (Rep digitClass n) (Seq (Chr c) r)) (drop i s)
                   = (if digitsAt s i n then run (Seq (Chr c) r) (drop (i + n) s) else [])"
    using run_digits[OF n, of i s] by (rule run_Seq_single)
  ultimately show ?thesis by simp
qed

lemma drop_is_char: "drop i s = [c] \<longleftrightarrow> charAt s i c \<and> length s = Suc i"
proof
  assume a: "drop i s = [c]"
  then have l: "length s - i = 1" by (metis length_drop length_Cons list.size(3) One_nat_def)
  then have "i < length s" by simp
  moreover have "s ! i = c" using a calculation by (metis nth_via_drop)
  ultimately show "charAt s i c \<and> length s = Suc i" using l by (simp add: charAt_def)
next
  assume a: "charAt s i c \<and> length s = Suc i"
  then show "drop i s = [c]" using Cons_nth_drop_Suc[of i s] by (auto simp: charAt_def)
qed

lemma test_Z: "[] \<in> set (run (Chr c) (drop i s)) \<longleftrightarrow> charAt s i c \<and> length s = Suc i"
  unfolding run_char by (auto simp: charAt_def)

lemma run_tail:
  "[] \<in> set (run (Seq (Rep digitClass 2)
                  (Seq (Opt (Seq (Chr CHR ''.'') (Rep digitClass 3))) (Chr CHR ''Z''))) (drop 17 s))
   \<longleftrightarrow> digitsAt s 17 2 \<and>
       ((charAt s 19 CHR ''Z'' \<and> length s = 20) \<or>
        (charAt s 19 CHR ''.'' \<and> digitsAt s 20 3 \<and> charAt s 23 CHR ''Z'' \<and> length s = 24))"
proof -
  let ?frac = "Seq (Chr CHR ''.'') (Rep digitClass 3)"
  let ?rest = "Seq (Opt ?frac) (Chr CHR ''Z'')"
  have f: "run ?frac (drop 19 s)
             = (if charAt s 19 CHR ''.'' \<and> digitsAt s 20 3 then [drop 23 s] else [])"
  proof -
    have "run ?frac (drop 19 s) = (if charAt s 19 CHR ''.'' then run (Rep digitClass 3) (drop (Suc 19) s) else [])"
      using run_char[of "CHR ''.''" 19 s] by (rule run_Seq_single)
    then show ?thesis using run_digits[where n=3 and i=20 and s=s, OF zero_less_numeral] by simp
  qed
  have "run ?rest (drop 19 s) = concat (map (run (Chr CHR ''Z'')) (run ?frac (drop 19 s) @ [drop 19 s]))"
    by simp
  then have r: "[] \<in> set (run ?rest (drop 19 s)) \<longleftrightarrow>
               (charAt s 19 CHR ''.'' \<and> digitsAt s 20 3 \<and> charAt s 23 CHR ''Z'' \<and> length s = 24)
               \<or> (charAt s 19 CHR ''Z'' \<and> length s = 20)"
    unfolding f using test_Z[of "CHR ''Z''" 23 s] test_Z[of "CHR ''Z''" 19 s]
    by (auto simp del: run.simps)
  have "run (Seq (Rep digitClass 2) ?rest) (drop 17 s)
          = (if digitsAt s 17 2 then run ?rest (drop (17 + 2) s) else [])"
    using run_digits[where n=2 and i=17 and s=s, OF zero_less_numeral] by (rule run_Seq_single)
  then show ?thesis using r by (auto simp del: run.simps)
qed

lemma isoDateTimeRegex_test: "regexTest isoDateTimeRegex s \<longleftrightarrow> isoTimestampForm s"
proof -
  let ?tail = "Seq (Rep digitClass 2)
                  (Seq (Opt (Seq (Chr CHR ''.'') (Rep digitClass 3))) (Chr CHR ''Z''))"
  let ?r5 = "Seq (Rep digitClass 2) (Seq (Chr CHR '':'') ?tail)"
  let ?r4 = "Seq (Rep digitClass 2) (Seq (Chr CHR '':'') ?r5)"
  let ?r3 = "Seq (Rep digitClass 2) (Seq (Chr CHR ''T'') ?r4)"
  let ?r2 = "Seq (Rep digitClass 2) (Seq (Chr CHR ''-'') ?r3)"
  let ?r1 = "Seq (Rep digitClass 4) (Seq (Chr CHR ''-'') ?r2)"
  have e: "isoDateTimeRegex = ?r1"
    by (simp add: isoDateTimeRegex_def digitClass_def Let_def)
  have 1: "run ?r1 s = (if digitsAt s 0 4 \<and> charAt s 4 CHR ''-'' then run ?r2 (drop 5 s) else [])"
    using run_block[of 4 "CHR ''-''" ?r2 0 s] by simp
  have 2: "run ?r2 (drop 5 s) = (if digitsAt s 5 2 \<and> charAt s 7 CHR ''-'' then run ?r3 (drop 8 s) else [])"
    using run_block[of 2 "CHR ''-''" ?r3 5 s] by simp
  have 3: "run ?r3 (drop 8 s) = (if digitsAt s 8 2 \<and> charAt s 10 CHR ''T'' then run ?r4 (drop 11 s) else [])"
    using run_block[of 2 "CHR ''T''" ?r4 8 s] by simp
  have 4: "run ?r4 (drop 11 s) = (if digitsAt s 11 2 \<and> charAt s 13 CHR '':'' then run ?r5 (drop 14 s) else [])"
    using run_block[of 2 "CHR '':''" ?r5 11 s] by simp
  have 5: "run ?r5 (drop 14 s) = (if digitsAt s 14 2 \<and> charAt s 16 CHR '':'' then run ?tail (drop 17 s) else [])"
    using run_block[of 2 "CHR '':''" ?tail 14 s] by simp
  show ?thesis
    unfolding regexTest_def e 1 2 3 4 5 isoTimestampForm_def
    using run_tail[of s] by (auto simp del: run.simps)
qed

lemma safeParse_datetime:
  "safeParse (ZString [Datetime]) (JStr s)
     = (if regexTest isoDateTimeRegex s then Success (JStr s)
        else Failure [Issue [] ''Invalid datetime''])"
  by (simp add: safeParse_def List.map_filter_def)

lemma digits_not_iso: "digits s \<Longrightarrow> \<not> isoTimestampForm s"
proof
  assume d: "digits s" and f: "isoTimestampForm s"
  from f have "4 < length s" "s ! 4 = CHR ''-''" by (simp_all add: isoTimestampForm_def charAt_def)
  with d have "isDigit CHR ''-''" unfolding digits_def by (metis nth_mem)
  then show False by (simp add: isDigit_def inRange_def)
qed

lemma dateOnly_not_iso: "dateOnlyForm s \<Longrightarrow> \<not> isoTimestampForm s"
  by (simp add: dateOnlyForm_def isoTimestampForm_def charAt_def)

section \<open>Lemmas about URLs\<close>





























lemma parseInt10_examples:
  "parseInt10 ''60'' = Finite 60"
  by code_simp

section \<open>Lemmas about parsing\<close>















































lemma message3_valid:
  "validateMessageResponse urlValid0 message3 = Inr message1_parsed \<and> \<not> jsEqual message1_parsed message3"
  by code_simp

section \<open>Lemmas about objects and requests\<close>

lemma map_of_obj_set: "map_of (obj_set ps k v) = (map_of ps)(k \<mapsto> v)"
  by (induction ps) (auto simp: fun_eq_iff)




lemma request_calls: "snd (request c fetch m path options calls) = calls @ [buildCall c m path options]"
  by (simp add: request_def Let_def split: outcome.splits fetch_result.splits)


lemma forwardHeaders_Nil: "forwardHeaders obj [] = obj"
  by (simp add: forwardHeaders_def)

lemma forwardHeaders_Cons:
  "forwardHeaders obj ((k, v) # hs) = forwardHeaders (obj_set obj (forwardKey k) (JStr v)) hs"
  by (simp add: forwardHeaders_def)

lemma forwardKey_inj: "forwardKey a = forwardKey b \<longleftrightarrow> a = b"
  by (simp add: forwardKey_def)

lemma map_of_forwardHeaders_other:
  "k \<notin> forwardKey ` fst ` set hs \<Longrightarrow> map_of (forwardHeaders obj hs) k = map_of obj k"
  by (induction hs arbitrary: obj) (auto simp: forwardHeaders_Nil forwardHeaders_Cons map_of_obj_set)

lemma map_of_forwardHeaders_hit:
  "distinct (map fst hs) \<Longrightarrow> (h, v) \<in> set hs \<Longrightarrow>
     map_of (forwardHeaders obj hs) (forwardKey h) = Some (JStr v)"
proof (induction hs arbitrary: obj)
  case Nil
  then show ?case by simp
next
  case (Cons p hs)
  obtain k w where p: "p = (k, w)" by (cases p)
  show ?case
  proof (cases "(h, v) = (k, w)")
    case True
    with Cons.prems p have "forwardKey h \<notin> forwardKey ` fst ` set hs"
      by (force simp: forwardKey_inj)
    then show ?thesis
      using True p by (simp add: forwardHeaders_Cons map_of_forwardHeaders_other map_of_obj_set)
  next
    case False
    with Cons.prems p have "(h, v) \<in> set hs" "distinct (map fst hs)" by auto
    then show ?thesis using p Cons.IH by (simp add: forwardHeaders_Cons)
  qed
qed



lemma map_of_setIf: "map_of (setIf b k v obj) = (if b then (map_of obj)(k \<mapsto> v) else map_of obj)"
  by (simp add: setIf_def map_of_obj_set)



lemma appendQuery_keys: "fst ` set (appendQuery q) \<subseteq> fst ` set q"
  by (auto simp: appendQuery_def)



lemma forwardKey_neq [simp]:
  "forwardKey h \<noteq> ''Queue-Delay''" "forwardKey h \<noteq> ''Queue-notBefore''"
  "forwardKey h \<noteq> ''Queue-timezone''" "forwardKey h \<noteq> ''Queue-Method''"
  "''Queue-Delay'' \<noteq> forwardKey h" "''Queue-notBefore'' \<noteq> forwardKey h"
  "''Queue-timezone'' \<noteq> forwardKey h" "''Queue-Method'' \<noteq> forwardKey h"
  by (simp_all add: forwardKey_def)

lemma reserved_not_forward [simp]:
  "''Queue-Delay'' \<notin> forwardKey ` A" "''Queue-notBefore'' \<notin> forwardKey ` A"
  "''Queue-timezone'' \<notin> forwardKey ` A" "''Queue-Method'' \<notin> forwardKey ` A"
  by (auto simp: forwardKey_def)





lemma publish_other_calls:
  assumes "callbackUrl \<noteq> []" "httpMethod options \<noteq> ''GET''"
  shows "snd (publish c fetch callbackUrl payload options calls)
           = calls @ [buildCall c (httpMethod options) (''/publish/'' @ encodeURIComponent callbackUrl)
                        (Some \<lparr> optBody = Some (JObj (publishBody payload options)), optQuery = None \<rparr>)]"
  using assms by (simp add: publish_def Let_def request_calls)


lemma publishBody_payload:
  "k \<notin> reservedKeys options \<Longrightarrow> map_of (publishBody payload options) k = map_of payload k"
  unfolding publishBody_def Let_def reservedKeys_def
  by (cases "optional headers options")
     (auto simp: map_of_setIf map_of_forwardHeaders_other split: if_splits)

lemma publishBody_header:
  assumes "optional headers options = Some hs" "distinct (map fst hs)" "(h, v) \<in> set hs"
  shows "map_of (publishBody payload options) (forwardKey h) = Some (JStr v)"
  using assms unfolding publishBody_def Let_def
  by (simp add: map_of_setIf map_of_forwardHeaders_hit)

lemma publishBody_delay:
  "optional delay options = Some d \<Longrightarrow> d \<noteq> [] \<Longrightarrow>
     map_of (publishBody payload options) ''Queue-Delay'' = Some (JStr d)"
  unfolding publishBody_def Let_def by (simp add: map_of_setIf)

lemma publishBody_notBefore:
  "optional notBefore options = Some d \<Longrightarrow> d \<noteq> [] \<Longrightarrow>
     map_of (publishBody payload options) ''Queue-notBefore'' = Some (JStr d)"
  unfolding publishBody_def Let_def by (simp add: map_of_setIf)

lemma publishBody_timezone:
  "optional timezone options = Some d \<Longrightarrow> d \<noteq> [] \<Longrightarrow>
     map_of (publishBody payload options) ''Queue-timezone'' = Some (JStr d)"
  unfolding publishBody_def Let_def by (simp add: map_of_setIf)

lemma publishBody_method:
  "truthy_str (optional method' options) \<Longrightarrow>
     map_of (publishBody payload options) ''Queue-Method'' = Some (JStr (httpMethod options))"
  unfolding publishBody_def Let_def by (simp add: map_of_setIf)

lemma publishBody_example:
  "publishBody [(''a'', JNum (Finite 1))] (Some (opts0\<lparr>headers := Some [(''X-A'', ''1'')]\<rparr>))
     = [(''a'', JNum (Finite 1)), (''Queue-Forward-X-A'', JStr ''1'')]"
  by (simp add: publishBody_def opts0_def optional_def setIf_def forwardHeaders_def forwardKey_def)

lemma httpMethod_example: "httpMethod (Some (opts0\<lparr>headers := Some [(''X-A'', ''1'')]\<rparr>)) = ''POST''"
  by (simp add: httpMethod_def opts0_def optional_def)

lemma request_resolved:
  "fetch (buildCall c m path options) = Resolved r \<Longrightarrow>
     fst (request c fetch m path options calls)
       = (case handleResponse r of Return d \<Rightarrow> Return d | Throw e \<Rightarrow> Throw (catchClause e))"
  by (simp add: request_def Let_def split: outcome.splits)

lemma request_rejected:
  "fetch (buildCall c m path options) = Rejected e \<Longrightarrow>
     fst (request c fetch m path options calls) = Throw (catchClause e)"
  by (simp add: request_def Let_def)

lemma request_ok:
  "fetch (buildCall c m path options) = Resolved r \<Longrightarrow> ok r \<Longrightarrow> bodyJson r = Some b \<Longrightarrow>
     request c fetch m path options calls = (Return b, calls @ [buildCall c m path options])"
  by (auto simp: request_def Let_def handleResponse_def ok_def)

lemma request_always_ok:
  "\<forall>call. fetch call = Resolved r \<Longrightarrow> ok r \<Longrightarrow> bodyJson r = Some b \<Longrightarrow>
     fst (request c fetch m path options calls) = Return b"
  by (simp add: request_ok)

lemma returnErrors_fst:
  "fst res = Return b \<Longrightarrow>
     fst (returnErrors res) = (case get_member b ''errors'' of Inl e \<Rightarrow> Throw (Native e) | Inr v \<Rightarrow> Return v)"
  by (cases res) (auto simp: returnErrors_def split: sum.splits)

section \<open>Status dispatch\<close>

text \<open>
  C1.  The status of a response decides the error in this order: 401 gives
  AuthenticationError, 403 AuthorizationError, 404 NotFoundError, 429 RateLimitError, a
  status of 500 or more ServerError with that status, any other status outside 200 to 299
  ApiError with that status; a status from 200 to 299 gives no error, and the parsed body
  is returned.
\<close>

theorem status_dispatch_order:
  "fetch (buildCall c m path options) = Resolved r \<longrightarrow>
     (status r = 401 \<longrightarrow>
        fst (request c fetch m path options calls)
          = Throw (Inline (AuthenticationError ''Invalid or expired token''))) \<and>
     (status r = 403 \<longrightarrow>
        fst (request c fetch m path options calls)
          = Throw (Inline (AuthorizationError ''Not authorized to access this resource''))) \<and>
     (status r = 404 \<longrightarrow>
        fst (request c fetch m path options calls)
          = Throw (Inline (NotFoundError ''Resource not found''))) \<and>
     (status r = 429 \<longrightarrow>
        (\<exists>ra. fst (request c fetch m path options calls)
          = Throw (Inline (RateLimitError ''Rate limited'' ra)))) \<and>
     (status r \<ge> 500 \<longrightarrow>
        (\<exists>msg. fst (request c fetch m path options calls)
          = Throw (Inline (ServerError msg (status r))))) \<and>
     (status r \<notin> {401, 403, 404, 429} \<and> status r < 500 \<and> \<not> ok r \<longrightarrow>
        (\<exists>msg. fst (request c fetch m path options calls)
          = Throw (Inline (ApiError msg (status r) (bodyText r))))) \<and>
     (ok r \<longrightarrow> (\<forall>e. fst (request c fetch m path options calls) \<noteq> Throw (Inline e))) \<and>
     (ok r \<and> bodyJson r = Some data \<longrightarrow>
        fst (request c fetch m path options calls) = Return data)"
  by (auto simp: request_def handleResponse_def ok_def Let_def split: option.splits)

theorem status_dispatch_order_witness:
  "fst (request client0 (respond 401 [] [] None) ''GET'' ''/health'' None [])
     = Throw (Inline (AuthenticationError ''Invalid or expired token'')) \<and>
   (\<exists>msg. fst (request client0 (respond 503 [] ''down'' None) ''GET'' ''/health'' None [])
     = Throw (Inline (ServerError msg 503))) \<and>
   (\<exists>msg. fst (request client0 (respond 400 [] ''bad'' None) ''GET'' ''/health'' None [])
     = Throw (Inline (ApiError msg 400 ''bad''))) \<and>
   fst (request client0 (respond 200 [] ''{}'' (Some (JObj []))) ''GET'' ''/health'' None [])
     = Return (JObj [])"
  using status_dispatch_order [of "respond 401 [] [] None" client0 "''GET''" "''/health''" None
          "\<lparr> status = 401, statusText = [], responseHeaders = [], bodyText = [], bodyJson = None \<rparr>" "[]"]
        status_dispatch_order [of "respond 503 [] ''down'' None" client0 "''GET''" "''/health''" None
          "\<lparr> status = 503, statusText = [], responseHeaders = [], bodyText = ''down'', bodyJson = None \<rparr>" "[]"]
        status_dispatch_order [of "respond 400 [] ''bad'' None" client0 "''GET''" "''/health''" None
          "\<lparr> status = 400, statusText = [], responseHeaders = [], bodyText = ''bad'', bodyJson = None \<rparr>" "[]"]
        status_dispatch_order [of "respond 200 [] ''{}'' (Some (JObj []))" client0 "''GET''" "''/health''" None
          "\<lparr> status = 200, statusText = [], responseHeaders = [], bodyText = ''{}'', bodyJson = Some (JObj []) \<rparr>" "[]" "JObj []"]
  by (simp add: respond_def ok_def)

section \<open>Identifier checks\<close>

text \<open>
  C3.  Called with the empty string, getMessage, retryMessage, getErrorsByCode and
  cancelMessage throw ValidationError and leave the list of transport calls as it was; from
  an empty list, the number of calls stays zero.
\<close>

theorem empty_identifier_rejected:
  "getMessage c fetch [] calls = (Throw (Inline (ValidationError ''messageId is required'')), calls) \<and>
   retryMessage c fetch [] calls = (Throw (Inline (ValidationError ''messageId is required'')), calls) \<and>
   getErrorsByCode c fetch [] calls = (Throw (Inline (ValidationError ''code is required'')), calls) \<and>
   (\<exists>msg. cancelMessage c fetch [] calls = (Throw (Inline (ValidationError msg)), calls)) \<and>
   length (snd (getMessage c fetch [] [])) = 0 \<and>
   length (snd (retryMessage c fetch [] [])) = 0 \<and>
   length (snd (getErrorsByCode c fetch [] [])) = 0 \<and>
   length (snd (cancelMessage c fetch [] [])) = 0"
  by (simp add: getMessage_def retryMessage_def getErrorsByCode_def cancelMessage_def)

section \<open>Exceptions of the transport\<close>

text \<open>
  C4.  A client with a timeout of 100 milliseconds calls getHealth against a server that
  answers after 200 milliseconds.  The timer fires first, the request is aborted and the
  transport rejects with the abort reason, a DOMException named AbortError.  The catch
  clause of \<^verbatim>\<open>request\<close> wraps a TypeError only, so the operation throws the AbortError as it
  is, where the claim, the documentation of NetworkError and the timeout test of the
  integration suite have a NetworkError.
\<close>

theorem timeout_abort_not_wrapped:
  "fst (getHealth (client0\<lparr>timeout := 100\<rparr>) (withSignal slowServer) [])
     = Throw (Native (DOMException ''AbortError'' ''The operation was aborted.''))"
proof -
  let ?c = "client0\<lparr>timeout := 100\<rparr>"
  have "withSignal slowServer (buildCall ?c ''GET'' ''/health'' None) = Rejected abortReason"
    by (simp add: withSignal_def slowServer_def buildCall_def client0_def)
  then have "fst (request ?c (withSignal slowServer) ''GET'' ''/health'' None []) = Throw (catchClause abortReason)"
    by (rule request_rejected)
  then show ?thesis by (simp add: getHealth_def abortReason_def)
qed

section \<open>publish\<close>




text \<open>
  C6.  When the method is not GET, publish issues one request with that method whose body
  is an object that agrees with the payload on every key that is not a reserved key written
  for this call, and holds the reserved value under each reserved key: one Queue-Forward
  field per forwarded header, Queue-Delay, Queue-notBefore, Queue-timezone and Queue-Method.
  With the default method, the payload {a: 1} and the header X-A: 1, the body of the POST
  request is exactly {a: 1, Queue-Forward-X-A: 1}.
\<close>

theorem publish_body_request:
  assumes "callbackUrl \<noteq> []" and "httpMethod options \<noteq> ''GET''"
      and "optional headers options = Some hs \<longrightarrow> distinct (map fst hs)"
  shows "(\<exists>call obj.
            snd (publish c fetch callbackUrl payload options calls) = calls @ [call] \<and>
            fetchMethod call = httpMethod options \<and>
            body call = Some (JObj obj) \<and>
            (\<forall>k. k \<notin> reservedKeys options \<longrightarrow> map_of obj k = map_of payload k) \<and>
            (\<forall>h v. optional headers options = Some hs \<and> (h, v) \<in> set hs
               \<longrightarrow> map_of obj (forwardKey h) = Some (JStr v)) \<and>
            (\<forall>d. optional delay options = Some d \<and> d \<noteq> []
               \<longrightarrow> map_of obj ''Queue-Delay'' = Some (JStr d)) \<and>
            (\<forall>d. optional notBefore options = Some d \<and> d \<noteq> []
               \<longrightarrow> map_of obj ''Queue-notBefore'' = Some (JStr d)) \<and>
            (\<forall>d. optional timezone options = Some d \<and> d \<noteq> []
               \<longrightarrow> map_of obj ''Queue-timezone'' = Some (JStr d)) \<and>
            (truthy_str (optional method' options)
               \<longrightarrow> map_of obj ''Queue-Method'' = Some (JStr (httpMethod options)))) \<and>
         (\<exists>call.
            snd (publish c fetch callbackUrl [(''a'', JNum (Finite 1))]
                   (Some (opts0\<lparr>headers := Some [(''X-A'', ''1'')]\<rparr>)) calls) = calls @ [call] \<and>
            fetchMethod call = ''POST'' \<and>
            body call = Some (JObj [(''a'', JNum (Finite 1)), (''Queue-Forward-X-A'', JStr ''1'')]))"
proof (rule conjI)
  let ?call = "buildCall c (httpMethod options) (''/publish/'' @ encodeURIComponent callbackUrl)
                 (Some \<lparr> optBody = Some (JObj (publishBody payload options)), optQuery = None \<rparr>)"
  let ?obj = "publishBody payload options"
  have 1: "snd (publish c fetch callbackUrl payload options calls) = calls @ [?call]"
    using assms(1,2) by (rule publish_other_calls)
  have 2: "fetchMethod ?call = httpMethod options" "body ?call = Some (JObj ?obj)"
    by (simp_all add: buildCall_def)
  have 3: "\<forall>k. k \<notin> reservedKeys options \<longrightarrow> map_of ?obj k = map_of payload k"
    by (simp add: publishBody_payload)
  have 4: "\<forall>h v. optional headers options = Some hs \<and> (h, v) \<in> set hs
               \<longrightarrow> map_of ?obj (forwardKey h) = Some (JStr v)"
    using assms(3) by (auto intro: publishBody_header)
  have 5: "\<forall>d. optional delay options = Some d \<and> d \<noteq> []
               \<longrightarrow> map_of ?obj ''Queue-Delay'' = Some (JStr d)"
    by (simp add: publishBody_delay)
  have 6: "\<forall>d. optional notBefore options = Some d \<and> d \<noteq> []
               \<longrightarrow> map_of ?obj ''Queue-notBefore'' = Some (JStr d)"
    by (simp add: publishBody_notBefore)
  have 7: "\<forall>d. optional timezone options = Some d \<and> d \<noteq> []
               \<longrightarrow> map_of ?obj ''Queue-timezone'' = Some (JStr d)"
    by (simp add: publishBody_timezone)
  have 8: "truthy_str (optional method' options)
               \<longrightarrow> map_of ?obj ''Queue-Method'' = Some (JStr (httpMethod options))"
    by (simp add: publishBody_method)
  show "\<exists>call obj.
            snd (publish c fetch callbackUrl payload options calls) = calls @ [call] \<and>
            fetchMethod call = httpMethod options \<and>
            body call = Some (JObj obj) \<and>
            (\<forall>k. k \<notin> reservedKeys options \<longrightarrow> map_of obj k = map_of payload k) \<and>
            (\<forall>h v. optional headers options = Some hs \<and> (h, v) \<in> set hs
               \<longrightarrow> map_of obj (forwardKey h) = Some (JStr v)) \<and>
            (\<forall>d. optional delay options = Some d \<and> d \<noteq> []
               \<longrightarrow> map_of obj ''Queue-Delay'' = Some (JStr d)) \<and>
            (\<forall>d. optional notBefore options = Some d \<and> d \<noteq> []
               \<longrightarrow> map_of obj ''Queue-notBefore'' = Some (JStr d)) \<and>
            (\<forall>d. optional timezone options = Some d \<and> d \<noteq> []
               \<longrightarrow> map_of obj ''Queue-timezone'' = Some (JStr d)) \<and>
            (truthy_str (optional method' options)
               \<longrightarrow> map_of obj ''Queue-Method'' = Some (JStr (httpMethod options)))"
    using 1 2 3 4 5 6 7 8 by blast
next
  let ?o = "Some (opts0\<lparr>headers := Some [(''X-A'', ''1'')]\<rparr>)"
  let ?call = "buildCall c ''POST'' (''/publish/'' @ encodeURIComponent callbackUrl)
                 (Some \<lparr> optBody = Some (JObj [(''a'', JNum (Finite 1)), (''Queue-Forward-X-A'', JStr ''1'')]),
                         optQuery = None \<rparr>)"
  have "snd (publish c fetch callbackUrl [(''a'', JNum (Finite 1))] ?o calls) = calls @ [?call]"
    using publish_other_calls[of callbackUrl ?o c fetch "[(''a'', JNum (Finite 1))]" calls] assms(1)
    by (simp add: httpMethod_example publishBody_example)
  moreover have "fetchMethod ?call = ''POST''"
    "body ?call = Some (JObj [(''a'', JNum (Finite 1)), (''Queue-Forward-X-A'', JStr ''1'')])"
    by (simp_all add: buildCall_def)
  ultimately show "\<exists>call.
            snd (publish c fetch callbackUrl [(''a'', JNum (Finite 1))] ?o calls) = calls @ [call] \<and>
            fetchMethod call = ''POST'' \<and>
            body call = Some (JObj [(''a'', JNum (Finite 1)), (''Queue-Forward-X-A'', JStr ''1'')])"
    by blast
qed

theorem publish_body_request_witness:
  "\<exists>call. snd (publish client0 (respond 200 [] [] (Some JNull)) ''https://example.com/hook''
                  [(''a'', JNum (Finite 1)), (''Queue-Delay'', JStr ''1h'')]
                  (Some (opts0\<lparr>headers := Some [(''X-A'', ''1'')], delay := Some ''5m''\<rparr>)) []) = [call] \<and>
          fetchMethod call = ''POST'' \<and>
          (\<exists>obj. body call = Some (JObj obj) \<and>
             map_of obj ''a'' = Some (JNum (Finite 1)) \<and>
             map_of obj ''Queue-Delay'' = Some (JStr ''5m'') \<and>
             map_of obj ''Queue-Forward-X-A'' = Some (JStr ''1''))"
proof -
  let ?o = "Some (opts0\<lparr>headers := Some [(''X-A'', ''1'')], delay := Some ''5m''\<rparr>)"
  have n: "''https://example.com/hook'' \<noteq> []" by simp
  have m: "httpMethod ?o = ''POST''" by (simp add: httpMethod_def opts0_def optional_def)
  then have g: "httpMethod ?o \<noteq> ''GET''" by simp
  have d: "optional headers ?o = Some [(''X-A'', ''1'')] \<longrightarrow> distinct (map fst [(''X-A'', ''1'')])" by simp
  have r: "''a'' \<notin> reservedKeys ?o"
    by (simp add: reservedKeys_def optional_def opts0_def forwardKey_def)
  from publish_body_request[OF n g d, of client0 "respond 200 [] [] (Some JNull)"
         "[(''a'', JNum (Finite 1)), (''Queue-Delay'', JStr ''1h'')]" "[]"]
  obtain call obj where
    c: "snd (publish client0 (respond 200 [] [] (Some JNull)) ''https://example.com/hook''
                  [(''a'', JNum (Finite 1)), (''Queue-Delay'', JStr ''1h'')] ?o []) = [] @ [call]"
      "fetchMethod call = httpMethod ?o" "body call = Some (JObj obj)"
      "\<forall>k. k \<notin> reservedKeys ?o \<longrightarrow> map_of obj k = map_of [(''a'', JNum (Finite 1)), (''Queue-Delay'', JStr ''1h'')] k"
      "\<forall>h v. optional headers ?o = Some [(''X-A'', ''1'')] \<and> (h, v) \<in> set [(''X-A'', ''1'')]
               \<longrightarrow> map_of obj (forwardKey h) = Some (JStr v)"
      "\<forall>d. optional delay ?o = Some d \<and> d \<noteq> [] \<longrightarrow> map_of obj ''Queue-Delay'' = Some (JStr d)"
    by blast
  have "map_of obj ''a'' = Some (JNum (Finite 1))" using c(4) r by simp
  moreover have "map_of obj ''Queue-Delay'' = Some (JStr ''5m'')"
    using c(6) by (simp add: optional_def opts0_def)
  moreover have "map_of obj (forwardKey ''X-A'') = Some (JStr ''1'')"
    using c(5) by (simp add: optional_def opts0_def)
  ultimately show ?thesis using c(1,2,3) m by (auto simp: forwardKey_def)
qed

section \<open>Rate limiting\<close>

text \<open>
  C7, as amended.  On a 429 response the RateLimitError carries the Retry-After header
  parsed by parseInt in base 10 when the header is there with a non-empty value (the value
  60 for the header 60, and the nearest double where the integer is not one, as
  9007199254740992 for the header 9007199254740993), and undefined when the header is
  absent or empty.
\<close>

theorem rate_limit_retry_after:
  "fetch (buildCall c m path options) = Resolved r \<and> status r = 429 \<longrightarrow>
     (\<forall>h. headers_get (responseHeaders r) ''Retry-After'' = Some h \<and> h \<noteq> [] \<longrightarrow>
        fst (request c fetch m path options calls)
          = Throw (Inline (RateLimitError ''Rate limited'' (Some (parseInt10 h))))) \<and>
     (headers_get (responseHeaders r) ''Retry-After'' = None
        \<or> headers_get (responseHeaders r) ''Retry-After'' = Some [] \<longrightarrow>
        fst (request c fetch m path options calls)
          = Throw (Inline (RateLimitError ''Rate limited'' None))) \<and>
     parseInt10 ''60'' = Finite 60 \<and>
     parseInt10 ''9007199254740993'' = Finite 9007199254740992"
proof -
  have p: "parseInt10 ''60'' = Finite 60" "parseInt10 ''9007199254740993'' = Finite 9007199254740992"
    by code_simp+
  show ?thesis
    by (auto simp: request_resolved handleResponse_def p)
qed

theorem rate_limit_retry_after_witness:
  "fst (request client0 (respond 429 [(''retry-after'', ''60'')] [] None) ''GET'' ''/health'' None [])
     = Throw (Inline (RateLimitError ''Rate limited'' (Some (Finite 60)))) \<and>
   fst (request client0 (respond 429 [] [] None) ''GET'' ''/health'' None [])
     = Throw (Inline (RateLimitError ''Rate limited'' None))"
proof -
  let ?r1 = "\<lparr> status = 429, statusText = [], responseHeaders = [(''retry-after'', ''60'')],
               bodyText = [], bodyJson = None \<rparr>"
  let ?r2 = "\<lparr> status = 429, statusText = [], responseHeaders = [], bodyText = [], bodyJson = None \<rparr>"
  have g1: "headers_get [(''retry-after'', ''60'')] ''Retry-After'' = Some ''60''" by code_simp
  have g2: "headers_get [] ''Retry-After'' = None" by (simp add: headers_get_def)
  show ?thesis
    using rate_limit_retry_after
            [of "respond 429 [(''retry-after'', ''60'')] [] None" client0 "''GET''" "''/health''" None ?r1 "[]"]
          rate_limit_retry_after
            [of "respond 429 [] [] None" client0 "''GET''" "''/health''" None ?r2 "[]"]
    by (simp add: respond_def g1 g2)
qed

text \<open>The claim as stated has the parsed header whenever the header is present; a header
  that is present and empty gives undefined.\<close>

theorem empty_retry_after_header:
  "\<not> (\<forall>c fetch m path options calls r h.
        fetch (buildCall c m path options) = Resolved r \<and> status r = 429 \<and>
        headers_get (responseHeaders r) ''Retry-After'' = Some h
        \<longrightarrow> fst (request c fetch m path options calls)
              = Throw (Inline (RateLimitError ''Rate limited'' (Some (parseInt10 h)))))"
proof
  assume a: "\<forall>c fetch m path options calls r h.
        fetch (buildCall c m path options) = Resolved r \<and> status r = 429 \<and>
        headers_get (responseHeaders r) ''Retry-After'' = Some h
        \<longrightarrow> fst (request c fetch m path options calls)
              = Throw (Inline (RateLimitError ''Rate limited'' (Some (parseInt10 h))))"
  let ?r = "\<lparr> status = 429, statusText = [], responseHeaders = [(''retry-after'', [])],
               bodyText = [], bodyJson = None \<rparr>"
  have g: "headers_get [(''retry-after'', [])] ''Retry-After'' = Some []" by code_simp
  have "fst (request client0 (\<lambda>_. Resolved ?r) ''GET'' ''/health'' None [])
              = Throw (Inline (RateLimitError ''Rate limited'' (Some (parseInt10 []))))"
    using a[rule_format, of "\<lambda>_. Resolved ?r" client0 "''GET''" "''/health''" None ?r "[]" "[]"] g
    by simp
  then show False by (simp add: request_def handleResponse_def g)
qed

section \<open>Results of the operations\<close>

text \<open>
  C10.  When the transport answers with a successful response whose JSON body is b,
  getErrorsByCode and getMessageErrors return the value of b.errors alone, whatever else b
  holds, and every other operation of the client returns b itself.
\<close>

theorem errors_field_only:
  assumes "\<forall>call. fetch call = Resolved r" and "ok r" and "bodyJson r = Some b"
  shows "(code \<noteq> [] \<longrightarrow>
            fst (getErrorsByCode c fetch code calls)
              = (case get_member b ''errors'' of Inl e \<Rightarrow> Throw (Native e) | Inr v \<Rightarrow> Return v)) \<and>
         (messageId \<noteq> [] \<longrightarrow>
            fst (getMessageErrors c fetch messageId calls)
              = (case get_member b ''errors'' of Inl e \<Rightarrow> Throw (Native e) | Inr v \<Rightarrow> Return v)) \<and>
         (\<forall>ps errs. b = JObj ps \<and> map_of ps ''errors'' = Some errs \<longrightarrow>
            (code \<noteq> [] \<longrightarrow> fst (getErrorsByCode c fetch code calls) = Return errs) \<and>
            (messageId \<noteq> [] \<longrightarrow> fst (getMessageErrors c fetch messageId calls) = Return errs)) \<and>
         (callbackUrl \<noteq> [] \<longrightarrow> fst (publish c fetch callbackUrl payload options calls) = Return b) \<and>
         (messageId \<noteq> [] \<longrightarrow> fst (getMessage c fetch messageId calls) = Return b) \<and>
         fst (listMessages c fetch listOptions calls) = Return b \<and>
         fst (getMessages c fetch listOptions calls) = Return b \<and>
         (messageId \<noteq> [] \<longrightarrow> fst (getMessageTimeline c fetch messageId calls) = Return b) \<and>
         (messageId \<noteq> [] \<longrightarrow> fst (retryMessage c fetch messageId calls) = Return b) \<and>
         fst (getHealth c fetch calls) = Return b \<and>
         fst (getHealthReady c fetch calls) = Return b \<and>
         fst (getDebugMessages c fetch calls) = Return b \<and>
         fst (getDebugStats c fetch calls) = Return b \<and>
         fst (getErrorStats c fetch calls) = Return b \<and>
         fst (getDeadLetterErrors c fetch calls) = Return b"
proof -
  note ok = request_always_ok[OF assms]
  have e1: "code \<noteq> [] \<longrightarrow>
            fst (getErrorsByCode c fetch code calls)
              = (case get_member b ''errors'' of Inl e \<Rightarrow> Throw (Native e) | Inr v \<Rightarrow> Return v)"
    by (simp add: getErrorsByCode_def returnErrors_fst[OF ok])
  have e2: "messageId \<noteq> [] \<longrightarrow>
            fst (getMessageErrors c fetch messageId calls)
              = (case get_member b ''errors'' of Inl e \<Rightarrow> Throw (Native e) | Inr v \<Rightarrow> Return v)"
    by (simp add: getMessageErrors_def returnErrors_fst[OF ok])
  have e3: "\<forall>ps errs. b = JObj ps \<and> map_of ps ''errors'' = Some errs \<longrightarrow>
            (code \<noteq> [] \<longrightarrow> fst (getErrorsByCode c fetch code calls) = Return errs) \<and>
            (messageId \<noteq> [] \<longrightarrow> fst (getMessageErrors c fetch messageId calls) = Return errs)"
    using e1 e2 by auto
  have p: "callbackUrl \<noteq> [] \<longrightarrow> fst (publish c fetch callbackUrl payload options calls) = Return b"
    by (simp add: publish_def Let_def ok)
  have m: "messageId \<noteq> [] \<longrightarrow> fst (getMessage c fetch messageId calls) = Return b"
    "messageId \<noteq> [] \<longrightarrow> fst (getMessageTimeline c fetch messageId calls) = Return b"
    "messageId \<noteq> [] \<longrightarrow> fst (retryMessage c fetch messageId calls) = Return b"
    by (simp_all add: getMessage_def getMessageTimeline_def retryMessage_def ok)
  have l: "fst (listMessages c fetch listOptions calls) = Return b"
    "fst (getMessages c fetch listOptions calls) = Return b"
    by (simp_all add: listMessages_def getMessages_def Let_def ok)
  have h: "fst (getHealth c fetch calls) = Return b"
    "fst (getHealthReady c fetch calls) = Return b"
    "fst (getDebugMessages c fetch calls) = Return b"
    "fst (getDebugStats c fetch calls) = Return b"
    "fst (getErrorStats c fetch calls) = Return b"
    "fst (getDeadLetterErrors c fetch calls) = Return b"
    by (simp_all add: getHealth_def getHealthReady_def getDebugMessages_def getDebugStats_def
          getErrorStats_def getDeadLetterErrors_def ok)
  show ?thesis using e1 e2 e3 p m l h by blast
qed

theorem errors_field_only_witness:
  "fst (getErrorsByCode client0 (respond 200 [] [] (Some errorsBody)) ''TIMEOUT'' [])
     = Return (JArr [JObj [(''id'', JStr ''err_1'')]]) \<and>
   fst (getMessageErrors client0 (respond 200 [] [] (Some errorsBody)) ''message_1'' [])
     = Return (JArr [JObj [(''id'', JStr ''err_1'')]]) \<and>
   fst (getErrorStats client0 (respond 200 [] [] (Some errorsBody)) []) = Return errorsBody"
proof -
  let ?r = "\<lparr> status = 200, statusText = [], responseHeaders = [], bodyText = [],
              bodyJson = Some errorsBody \<rparr>"
  have a: "\<forall>call. respond 200 [] [] (Some errorsBody) call = Resolved ?r"
    by (simp add: respond_def)
  have b: "ok ?r" by (simp add: ok_def)
  have c: "bodyJson ?r = Some errorsBody" by simp
  show ?thesis
    using errors_field_only[OF a b c, of "''TIMEOUT''" client0 "[]" "''message_1''"]
    by (simp add: errorsBody_def)
qed

section \<open>Message identifiers\<close>

text \<open>
  C2, as amended.  parseMessageId and the MessageId schema accept a string exactly when it
  is the prefix message_ followed by exactly 26 characters, the first of them from 0 to 7
  and the other 25 from the restricted alphabet (digits and upper-case letters without I,
  L, O and U); every other string, with a wrong prefix, a first character out of range, a
  character outside the alphabet, lower case, or another length, is rejected.
\<close>

theorem message_id_format:
  "(messageIdForm 26 s \<longrightarrow>
      parseMessageId s = Inr (JStr s) \<and> safeParse MessageId (JStr s) = Success (JStr s)) \<and>
   (\<not> messageIdForm 26 s \<longrightarrow>
      (\<exists>msg. parseMessageId s = Inl (Error msg)) \<and>
      (\<exists>issues. safeParse MessageId (JStr s) = Failure issues))"
  by (simp add: parseMessageId_def MessageId_def safeParse_regex messageIdRegex_test)

theorem message_id_format_witness:
  "parseMessageId ''message_000004QYYDCF9PHB9C6VWVHZEZ'' = Inr (JStr ''message_000004QYYDCF9PHB9C6VWVHZEZ'') \<and>
   (\<exists>msg. parseMessageId ''msg_000004QYYDCF9PHB9C6VWVHZEZ'' = Inl (Error msg)) \<and>
   (\<exists>msg. parseMessageId ''message_800004QYYDCF9PHB9C6VWVHZEZ'' = Inl (Error msg)) \<and>
   (\<exists>msg. parseMessageId ''message_000004qyydcf9phb9c6vwvhzez'' = Inl (Error msg)) \<and>
   (\<exists>msg. parseMessageId ''message_00000IQYYDCF9PHB9C6VWVHZEZ'' = Inl (Error msg)) \<and>
   (\<exists>msg. parseMessageId ''message_000004QYYDCF9PHB9C6VWVHZE'' = Inl (Error msg))"
proof -
  have a: "messageIdForm 26 ''message_000004QYYDCF9PHB9C6VWVHZEZ''" by code_simp
  have b: "\<not> messageIdForm 26 ''msg_000004QYYDCF9PHB9C6VWVHZEZ''" by code_simp
  have c: "\<not> messageIdForm 26 ''message_800004QYYDCF9PHB9C6VWVHZEZ''" by code_simp
  have d: "\<not> messageIdForm 26 ''message_000004qyydcf9phb9c6vwvhzez''" by code_simp
  have e: "\<not> messageIdForm 26 ''message_00000IQYYDCF9PHB9C6VWVHZEZ''" by code_simp
  have f: "\<not> messageIdForm 26 ''message_000004QYYDCF9PHB9C6VWVHZE''" by code_simp
  show ?thesis
    using message_id_format[of "''message_000004QYYDCF9PHB9C6VWVHZEZ''"] a
          message_id_format[of "''msg_000004QYYDCF9PHB9C6VWVHZEZ''"] b
          message_id_format[of "''message_800004QYYDCF9PHB9C6VWVHZEZ''"] c
          message_id_format[of "''message_000004qyydcf9phb9c6vwvhzez''"] d
          message_id_format[of "''message_00000IQYYDCF9PHB9C6VWVHZEZ''"] e
          message_id_format[of "''message_000004QYYDCF9PHB9C6VWVHZE''"] f
    by blast
qed

text \<open>The claim as stated has 25 characters after the prefix; such a string is one
  character short and is rejected.\<close>

theorem message_id_25_rejected:
  "\<not> (\<forall>s. messageIdForm 25 s \<longrightarrow>
          parseMessageId s = Inr (JStr s) \<and> safeParse MessageId (JStr s) = Success (JStr s))"
proof
  assume a: "\<forall>s. messageIdForm 25 s \<longrightarrow>
          parseMessageId s = Inr (JStr s) \<and> safeParse MessageId (JStr s) = Success (JStr s)"
  have f: "messageIdForm 25 ''message_000004QYYDCF9PHB9C6VWVHZE''" by code_simp
  have r: "\<not> regexTest messageIdRegex ''message_000004QYYDCF9PHB9C6VWVHZE''" by code_simp
  from a f have "parseMessageId ''message_000004QYYDCF9PHB9C6VWVHZE''
                   = Inr (JStr ''message_000004QYYDCF9PHB9C6VWVHZE'')" by blast
  then show False using r by (simp add: parseMessageId_def safeParse_regex)
qed

section \<open>Timestamps\<close>

text \<open>
  C8.  validateTimestamp and the ISODateTime schema accept every string of the form
  YYYY-MM-DDTHH:MM:SS[.fff]Z, with or without the fraction, and reject every string of
  digits (a numeric epoch), every date-only string, and every string that does not have a
  T after the date.
\<close>

theorem timestamp_format:
  "(isoTimestampForm s \<longrightarrow>
      validateTimestamp s = Inr (JStr s) \<and> safeParse ISODateTime (JStr s) = Success (JStr s)) \<and>
   (digits s \<or> dateOnlyForm s \<or> \<not> charAt s 10 CHR ''T'' \<longrightarrow>
      (\<exists>msg. validateTimestamp s = Inl (Error msg)) \<and>
      (\<exists>issues. safeParse ISODateTime (JStr s) = Failure issues))"
proof -
  have "digits s \<or> dateOnlyForm s \<or> \<not> charAt s 10 CHR ''T'' \<Longrightarrow> \<not> isoTimestampForm s"
    using digits_not_iso dateOnly_not_iso by (auto simp: isoTimestampForm_def)
  then show ?thesis
    by (auto simp: validateTimestamp_def ISODateTime_def safeParse_datetime isoDateTimeRegex_test)
qed

theorem timestamp_format_witness:
  "validateTimestamp ''2025-10-23T10:30:00.000Z'' = Inr (JStr ''2025-10-23T10:30:00.000Z'') \<and>
   validateTimestamp ''2025-10-23T10:30:00Z'' = Inr (JStr ''2025-10-23T10:30:00Z'') \<and>
   (\<exists>msg. validateTimestamp ''1698056400000'' = Inl (Error msg)) \<and>
   (\<exists>msg. validateTimestamp ''2025-10-23'' = Inl (Error msg)) \<and>
   (\<exists>msg. validateTimestamp ''2025-10-23 10:30:00'' = Inl (Error msg))"
proof -
  have a: "isoTimestampForm ''2025-10-23T10:30:00.000Z''" by code_simp
  have b: "isoTimestampForm ''2025-10-23T10:30:00Z''" by code_simp
  have c: "digits ''1698056400000''" by code_simp
  have d: "dateOnlyForm ''2025-10-23''" by code_simp
  have e: "\<not> charAt ''2025-10-23 10:30:00'' 10 CHR ''T''" by code_simp
  show ?thesis
    using timestamp_format[of "''2025-10-23T10:30:00.000Z''"] a
          timestamp_format[of "''2025-10-23T10:30:00Z''"] b
          timestamp_format[of "''1698056400000''"] c
          timestamp_format[of "''2025-10-23''"] d
          timestamp_format[of "''2025-10-23 10:30:00''"] e
    by blast
qed

section \<open>Message records\<close>




end
